(* ===== verification/Prelude.thy ===== *)
theory Prelude
  imports Complex_Main "HOL-Library.Word"
begin

text \<open>
  Shared vocabulary of the development: the exceptions the view can raise,
  bytes, Python-style exception propagation as a bind on the sum type
  \<open>exc + 'a\<close>, descending sortedness, and the list and word lemmas that the
  component theories share.
\<close>

named_theorems pipeline_simps "unfolding rules of the request pipeline"

section \<open>Bytes and exceptions\<close>

type_synonym byte = "8 word"
type_synonym bytes = "byte list"

text \<open>
  The exceptions raised on the paths of \<open>views.predict\<close>: NumPy's and Keras'
  \<open>ValueError\<close> (bad reshape, bad prediction shape, a view that returned
  \<open>None\<close>), \<open>IndexError\<close> (too few channels in \<open>preprocess_input\<close>,
  indexing an empty result list), \<open>KeyError\<close> (a missing key of
  \<open>cleaned_data\<close>), Pillow's \<open>UnidentifiedImageError\<close> and the
  \<open>OSError\<close> of \<open>load_model\<close> on a missing file.
\<close>

datatype exc =
    ValueError string
  | IndexError
  | KeyError string
  | UnidentifiedImageError
  | OSError string
  | DecompressionBombError nat

type_synonym 'a result = "exc + 'a"

text \<open>Python's exception propagation: the first raised exception is the result.\<close>

fun bindE :: "'e + 'a \<Rightarrow> ('a \<Rightarrow> 'e + 'b) \<Rightarrow> 'e + 'b" where
  "bindE (Inl e) f = Inl e"
| "bindE (Inr x) f = f x"

text \<open>Descending order, as \<open>sorted\<close> is ascending.\<close>

abbreviation sorted_desc :: "'a::linorder list \<Rightarrow> bool" where
  "sorted_desc xs \<equiv> sorted_wrt (\<ge>) xs"

lemma bindE_Inr_iff [simp]:
  "bindE m f = Inr y \<longleftrightarrow> (\<exists>x. m = Inr x \<and> f x = Inr y)"
  by (cases m) auto

lemma bindE_Inl_iff:
  "bindE m f = Inl e \<longleftrightarrow> (m = Inl e \<or> (\<exists>x. m = Inr x \<and> f x = Inl e))"
  by (cases m) auto

lemma bindE_Inr_left [simp, pipeline_simps]: "m = Inr x \<Longrightarrow> bindE m f = f x"
  by simp

section \<open>Descending order\<close>

lemma sorted_desc_rev_iff: "sorted_desc (rev xs) \<longleftrightarrow> sorted xs"
  by (simp add: sorted_wrt_rev)

lemma sorted_desc_map_rev_iff:
  "sorted_desc (map f (rev xs)) \<longleftrightarrow> sorted (map f xs)"
  by (simp add: rev_map [symmetric] sorted_desc_rev_iff)

section \<open>Words\<close>

lemma unat_byte_le: "unat (b :: byte) \<le> 255"
proof -
  have "unat b < 2 ^ LENGTH(8)" by (rule unsigned_less)
  then show ?thesis by simp
qed

lemma real_unat_byte_bounds: "0 \<le> real (unat (b :: byte)) \<and> real (unat b) \<le> 255"
proof -
  have "real (unat b) \<le> real (255 :: nat)"
    using unat_byte_le [of b] by (rule of_nat_mono)
  moreover have "0 \<le> real (unat b)" by (rule of_nat_0_le_iff)
  ultimately show ?thesis by (simp only: of_nat_numeral)
qed

lemma not_isl_iff: "\<not> isl x \<longleftrightarrow> (\<exists>y. x = Inr y)"
  by (cases x) auto

text \<open>Quotient and remainder bound a natural number, for C's shifts \<open>>> k\<close>.\<close>

lemma div_mod_bounds:
  "n * (a div n) \<le> a \<and> a < n * (a div n) + n" if "0 < (n :: nat)"
  using that div_mult_mod_eq [of a n] mod_less_divisor [OF that, of a]
  by (metis le_add1 mult.commute nat_add_left_cancel_less)

text \<open>Sums and means of lists sorted in descending order.\<close>

lemma sum_list_lower: "(\<forall>x \<in> set xs. c \<le> x) \<Longrightarrow> real (length xs) * c \<le> sum_list (xs :: real list)"
  by (induction xs) (auto simp: algebra_simps)

lemma sum_list_upper: "(\<forall>x \<in> set xs. x \<le> c) \<Longrightarrow> sum_list (xs :: real list) \<le> real (length xs) * c"
  by (induction xs) (auto simp: algebra_simps)

lemma sorted_desc_last_le: "sorted_desc xs \<Longrightarrow> x \<in> set xs \<Longrightarrow> last xs \<le> x"
proof -
  assume s: "sorted_desc xs" and x: "x \<in> set xs"
  then have ne: "xs \<noteq> []" by auto
  have "sorted_desc (butlast xs @ [last xs])" using s by (simp add: append_butlast_last_id [OF ne])
  then have "\<forall>y \<in> set (butlast xs). last xs \<le> y" by (simp add: sorted_wrt_append)
  moreover have "x \<in> set (butlast xs) \<or> x = last xs"
    using x append_butlast_last_id [OF ne] by (metis in_set_butlast_appendI rotate1.simps(2) set_ConsD set_rotate1)
  ultimately show ?thesis by auto
qed

text \<open>
  The first \<open>k\<close> entries of a descending list have at least the mean of the
  whole list: \<open>k * sum xs \<le> length xs * sum (take k xs)\<close>.
\<close>

lemma sorted_desc_take_mean:
  assumes s: "sorted_desc (xs :: real list)" and k: "k \<le> length xs"
  shows "real k * sum_list xs \<le> real (length xs) * sum_list (take k xs)"
proof (cases "k = 0")
  case False
  let ?a = "take k xs" and ?b = "drop k xs" and ?n = "length xs"
  have ne: "?a \<noteq> []" using False k by (cases xs) auto
  have sab: "sorted_desc (?a @ ?b)" using s by simp
  have sa': "sorted_desc ?a" and ab: "\<forall>x \<in> set ?a. \<forall>y \<in> set ?b. y \<le> x"
    using sab unfolding sorted_wrt_append by blast+
  have a: "\<forall>x \<in> set ?a. last ?a \<le> x" using sorted_desc_last_le [OF sa'] by blast
  have b: "\<forall>y \<in> set ?b. y \<le> last ?a" using ab last_in_set [OF ne] by blast
  have la: "length ?a = k" and lb: "length ?b = ?n - k" using k by simp_all
  have sa: "real k * last ?a \<le> sum_list ?a" using sum_list_lower [OF a] la by simp
  have sb: "sum_list ?b \<le> real (?n - k) * last ?a" using sum_list_upper [OF b] lb by simp
  have nk: "real (?n - k) = real ?n - real k" using k by (simp add: of_nat_diff)
  have "real k * sum_list ?b \<le> real k * (real (?n - k) * last ?a)"
    using sb by (simp add: mult_left_mono)
  also have "\<dots> = real (?n - k) * (real k * last ?a)" by (simp add: algebra_simps)
  also have "\<dots> \<le> real (?n - k) * sum_list ?a" using sa by (simp add: mult_left_mono)
  finally have "real k * sum_list ?b \<le> (real ?n - real k) * sum_list ?a" by (simp only: nk)
  moreover have "sum_list xs = sum_list ?a + sum_list ?b"
    by (simp flip: sum_list_append)
  ultimately show ?thesis by (simp add: algebra_simps)
qed simp

end
