(* ===== verification/Pillow.thy ===== *)
theory Pillow
  imports Prelude
begin

text \<open>
  Pillow, as the view reaches it through Keras' \<open>load_img\<close> and Django's
  \<open>ImageField\<close>: images with their modes and 8-bit bands, the conversions
  to RGB of libImaging/Convert.c, the NEAREST resize, and \<open>Image.open\<close>
  with its decompression-bomb check.  The byte-level format decoders are a
  parameter \<open>pil_open\<close>: bytes to an image, or \<open>None\<close> where no decoder
  accepts them; \<open>image_open\<close> then raises \<open>UnidentifiedImageError\<close>, and
  \<open>DecompressionBombError\<close> for an image of more than
  \<open>2 * MAX_IMAGE_PIXELS\<close> pixels.
\<close>

section \<open>Pillow images\<close>

text \<open>
  The modes Pillow decodes photographs to with 8-bit bands: bilevel \<open>1\<close>
  (stored as bytes 0 and 255), \<open>L\<close>, \<open>LA\<close>, palette \<open>P\<close>, \<open>RGB\<close>, \<open>RGBA\<close>
  and \<open>CMYK\<close> (JPEG's Adobe CMYK).  A \<open>P\<close> image's palette, the RGB
  triples its file defines, is carried by its mode.
\<close>

datatype pil_mode = Mode_1 | Mode_L | Mode_LA | Mode_P "byte list list"
  | Mode_RGB | Mode_RGBA | Mode_CMYK

fun bands :: "pil_mode \<Rightarrow> nat" where
  "bands Mode_1 = 1"
| "bands Mode_L = 1"
| "bands Mode_LA = 2"
| "bands (Mode_P pal) = 1"
| "bands Mode_RGB = 3"
| "bands Mode_RGBA = 4"
| "bands Mode_CMYK = 4"

text \<open>A palette holds at most 256 RGB triples.\<close>

fun wf_mode :: "pil_mode \<Rightarrow> bool" where
  "wf_mode (Mode_P pal) \<longleftrightarrow> length pal \<le> 256 \<and> (\<forall>e \<in> set pal. length e = 3)"
| "wf_mode m \<longleftrightarrow> True"

text \<open>Pixels in row-major order, each pixel its list of 8-bit band values.\<close>

record pil_image =
  im_mode :: pil_mode
  im_width :: nat
  im_height :: nat
  im_pixels :: "byte list list"

definition wf_image :: "pil_image \<Rightarrow> bool" where
  "wf_image im \<longleftrightarrow>
     wf_mode (im_mode im) \<and> length (im_pixels im) = im_width im * im_height im \<and>
     (\<forall>p \<in> set (im_pixels im). length p = bands (im_mode im))"

text \<open>
  Pillow's conversions to RGB (libImaging/Convert.c).  \<open>MULDIV255(a, b)\<close>
  is \<open>t = a * b + 128; ((t >> 8) + t) >> 8\<close>, and \<open>CLIP8\<close> clamps an int
  to 0..255.
\<close>

definition muldiv255 :: "nat \<Rightarrow> nat \<Rightarrow> nat" where
  "muldiv255 a b = (let t = a * b + 128 in (t div 256 + t) div 256)"

definition clip8 :: "int \<Rightarrow> nat" where
  "clip8 v = (if v \<le> 0 then 0 else if v < 256 then nat v else 255)"

text \<open>\<open>cmyk2rgb\<close>: \<open>nk = 255 - k; out = CLIP8(nk - MULDIV255(c, nk))\<close>.\<close>

definition cmyk_channel :: "byte \<Rightarrow> byte \<Rightarrow> byte" where
  "cmyk_channel c k =
     (let nk = 255 - unat k in of_nat (clip8 (int nk - int (muldiv255 (unat c) nk))))"

text \<open>
  \<open>p2rgb\<close> looks the index up in the image's palette of 256 entries; the
  entries the file does not define keep the grey ramp \<open>ImagingPaletteNew\<close>
  starts from.
\<close>

definition palette_rgb :: "byte list list \<Rightarrow> byte \<Rightarrow> byte list" where
  "palette_rgb pal i = (if unat i < length pal then pal ! unat i else [i, i, i])"

text \<open>
  \<open>Image.convert('RGB')\<close> pixel by pixel: \<open>bit2rgb\<close> maps a non-zero bit to
  white, \<open>l2rgb\<close> and \<open>la2rgb\<close> copy the grey value to the three channels,
  \<open>rgba2rgb\<close> drops alpha, \<open>p2rgb\<close> and \<open>cmyk2rgb\<close> as above.
\<close>

fun rgb_pixel :: "pil_mode \<Rightarrow> byte list \<Rightarrow> byte list" where
  "rgb_pixel Mode_1 p = (let v = (if hd p \<noteq> 0 then 255 else 0) in [v, v, v])"
| "rgb_pixel Mode_L p = [hd p, hd p, hd p]"
| "rgb_pixel Mode_LA p = [hd p, hd p, hd p]"
| "rgb_pixel (Mode_P pal) p = palette_rgb pal (hd p)"
| "rgb_pixel Mode_RGB p = p"
| "rgb_pixel Mode_RGBA p = take 3 p"
| "rgb_pixel Mode_CMYK p = map (\<lambda>c. cmyk_channel c (p ! 3)) (take 3 p)"

definition convert_rgb :: "pil_image \<Rightarrow> pil_image" where
  "convert_rgb im =
     im\<lparr>im_mode := Mode_RGB, im_pixels := map (rgb_pixel (im_mode im)) (im_pixels im)\<rparr>"

text \<open>
  \<open>Image.resize(size, NEAREST)\<close> samples, for target column \<open>x\<close>, the source
  column under the centre of the target pixel, \<open>floor((x + 0.5) * src / dst)\<close>,
  written here in exact integer arithmetic; rows likewise.
\<close>

definition nearest_src :: "nat \<Rightarrow> nat \<Rightarrow> nat \<Rightarrow> nat" where
  "nearest_src src dst x = ((2 * x + 1) * src) div (2 * dst)"

definition resize_nearest :: "nat \<times> nat \<Rightarrow> pil_image \<Rightarrow> pil_image" where
  "resize_nearest wh im =
     (let (w', h') = wh in
      im\<lparr>im_width := w', im_height := h',
         im_pixels := concat (map (\<lambda>y. map (\<lambda>x.
             im_pixels im ! (nearest_src (im_height im) h' y * im_width im
                             + nearest_src (im_width im) w' x)) [0..<w']) [0..<h'])\<rparr>)"

section \<open>PIL.Image.open\<close>

text \<open>
  \<open>MAX_IMAGE_PIXELS = int(1024 * 1024 * 1024 // 4 // 3)\<close>, that is 89478485
  (\<open>MAX_IMAGE_PIXELS_source\<close>), and
  \<open>_decompression_bomb_check(size)\<close>, which \<open>Image.open\<close> runs on the size
  the file declares: more than twice the limit raises (once the limit only
  warns).
\<close>

definition MAX_IMAGE_PIXELS :: nat where
  "MAX_IMAGE_PIXELS = 89478485"

definition image_pixels :: "pil_image \<Rightarrow> nat" where
  "image_pixels img = max 1 (im_width img) * max 1 (im_height img)"

definition image_open :: "(bytes \<Rightarrow> pil_image option) \<Rightarrow> bytes \<Rightarrow> pil_image result" where
  "image_open pil_open f =
     (case pil_open f of
        None \<Rightarrow> Inl UnidentifiedImageError
      | Some img \<Rightarrow>
          (if image_pixels img > 2 * MAX_IMAGE_PIXELS
           then Inl (DecompressionBombError (image_pixels img)) else Inr img))"

section \<open>Invariant of images\<close>

lemma nearest_src_less: "x < dst \<Longrightarrow> 0 < src \<Longrightarrow> nearest_src src dst x < src"
proof -
  assume x: "x < dst" and s: "0 < src"
  have "2 * x + 1 < 2 * dst" using x by simp
  then have "(2 * x + 1) * src < (2 * dst) * src" using s by (rule mult_less_mono1)
  then have "(2 * x + 1) * src < src * (2 * dst)" by (simp only: mult.commute)
  then show ?thesis unfolding nearest_src_def by (rule less_mult_imp_div_less)
qed

lemma row_major_index_less:
  "y < h \<Longrightarrow> x < w \<Longrightarrow> y * w + x < w * (h :: nat)"
proof -
  assume y: "y < h" and x: "x < w"
  have "y * w + x < y * w + w" using x by simp
  also have "\<dots> = Suc y * w" by simp
  also have "\<dots> \<le> h * w" using y by (intro mult_le_mono1) simp
  finally show ?thesis by (simp add: mult.commute)
qed

lemma length_palette_rgb: "wf_mode (Mode_P pal) \<Longrightarrow> length (palette_rgb pal i) = 3"
  by (simp add: palette_rgb_def)

lemma length_rgb_pixel:
  "wf_mode m \<Longrightarrow> length p = bands m \<Longrightarrow> length (rgb_pixel m p) = 3"
  by (cases m) (auto simp: Let_def length_palette_rgb)

lemma convert_rgb_wf:
  "wf_image im \<Longrightarrow> wf_image (convert_rgb im) \<and> im_mode (convert_rgb im) = Mode_RGB \<and>
     im_width (convert_rgb im) = im_width im \<and> im_height (convert_rgb im) = im_height im"
  by (auto simp: wf_image_def convert_rgb_def length_rgb_pixel)

lemma resize_nearest_wf:
  assumes "wf_image im" and "0 < im_width im" and "0 < im_height im"
  shows "wf_image (resize_nearest (w, h) im) \<and> im_width (resize_nearest (w, h) im) = w \<and>
    im_height (resize_nearest (w, h) im) = h \<and> im_mode (resize_nearest (w, h) im) = im_mode im"
proof -
  have idx: "nearest_src (im_height im) h y * im_width im + nearest_src (im_width im) w x
               < length (im_pixels im)" if "y < h" "x < w" for x y
    using assms that nearest_src_less row_major_index_less by (simp add: wf_image_def)
  have "length (concat (map (\<lambda>y. map (\<lambda>x. im_pixels im ! (nearest_src (im_height im) h y *
      im_width im + nearest_src (im_width im) w x)) [0..<w]) [0..<h])) = w * h"
    by (simp add: length_concat comp_def sum_list_triv)
  moreover have "\<forall>p \<in> set (concat (map (\<lambda>y. map (\<lambda>x. im_pixels im ! (nearest_src (im_height im) h y *
      im_width im + nearest_src (im_width im) w x)) [0..<w]) [0..<h])). length p = bands (im_mode im)"
    using assms(1) idx by (auto simp: wf_image_def)
  ultimately show ?thesis using assms(1) by (simp add: resize_nearest_def wf_image_def)
qed

section \<open>Pillow's CMYK conversion\<close>

text \<open>
  \<open>MULDIV255(a, b)\<close> is \<open>a * b / 255\<close> rounded to the nearest integer, for
  all 8-bit operands (the product is at most 65025).
\<close>

lemma muldiv255_round:
  assumes "a \<le> 255" and "b \<le> 255"
  shows "255 * muldiv255 a b \<le> a * b + 127 \<and> a * b \<le> 255 * muldiv255 a b + 127"
proof -
  let ?x = "a * b"
  let ?d = "(?x + 128) div 256"
  have x: "?x \<le> 65025" using mult_le_mono [OF assms] by simp
  have d: "256 * ?d \<le> ?x + 128 \<and> ?x + 128 < 256 * ?d + 256" by (rule div_mod_bounds) simp
  have m: "256 * ((?d + (?x + 128)) div 256) \<le> ?d + (?x + 128) \<and>
           ?d + (?x + 128) < 256 * ((?d + (?x + 128)) div 256) + 256" by (rule div_mod_bounds) simp
  show ?thesis unfolding muldiv255_def Let_def using d m x by linarith
qed

lemma muldiv255_le: "a \<le> 255 \<Longrightarrow> b \<le> 255 \<Longrightarrow> muldiv255 a b \<le> b"
proof -
  assume a: "a \<le> 255" and b: "b \<le> 255"
  have "a * b \<le> 255 * b" using a by simp
  then show ?thesis using muldiv255_round [OF a b] by linarith
qed

lemma clip8_int: "x \<le> 255 \<Longrightarrow> clip8 (int x) = x"
  by (simp add: clip8_def)

lemma clip8_diff: "m \<le> n \<Longrightarrow> n \<le> 255 \<Longrightarrow> clip8 (int n - int m) = n - m"
proof -
  assume "m \<le> n" and "n \<le> 255"
  then have "int n - int m = int (n - m)" and "n - m \<le> 255" by (simp_all add: of_nat_diff)
  then show ?thesis by (simp only: clip8_int)
qed

text \<open>\<open>CLIP8\<close> never fires in \<open>cmyk2rgb\<close>: the byte is \<open>nk - MULDIV255(c, nk)\<close>.\<close>

lemma unat_cmyk_channel:
  "unat (cmyk_channel c k) = (255 - unat k) - muldiv255 (unat c) (255 - unat k)"
proof -
  let ?nk = "255 - unat k"
  let ?m = "muldiv255 (unat c) ?nk"
  have le: "?m \<le> ?nk" using muldiv255_le [OF unat_byte_le] by simp
  have nk: "?nk \<le> 255" by simp
  have "cmyk_channel c k = of_nat (?nk - ?m)"
    unfolding cmyk_channel_def Let_def by (simp only: clip8_diff [OF le nk])
  moreover have "?nk - ?m < 2 ^ LENGTH(8)" by simp
  ultimately show ?thesis by (simp only: unat_of_nat mod_less)
qed

lemma rounded_diff_bound:
  assumes "a \<le> 255" and "m \<le> nk"
    and "255 * m \<le> a * nk + 127" and "a * nk \<le> 255 * m + 127"
  shows "\<bar>255 * int (nk - m) - int (255 - a) * int nk\<bar> \<le> 127"
proof -
  have d1: "int (nk - m) = int nk - int m" using assms(2) by (rule of_nat_diff)
  have d2: "int (255 - a) = 255 - int a" using assms(1) by simp
  have e: "255 * (int nk - int m) - (255 - int a) * int nk = int a * int nk - 255 * int m"
    by (simp add: algebra_simps)
  have "int (255 * m) \<le> int (a * nk + 127)" and "int (a * nk) \<le> int (255 * m + 127)"
    using assms(3,4) by (simp_all only: of_nat_le_iff)
  then have l: "255 * int m \<le> int a * int nk + 127" and u: "int a * int nk \<le> 255 * int m + 127"
    by simp_all
  show ?thesis unfolding d1 d2 e abs_le_iff using l u by linarith
qed

section \<open>Lemmas on Image.open\<close>

lemma MAX_IMAGE_PIXELS_source: "MAX_IMAGE_PIXELS = 1024 * 1024 * 1024 div 4 div 3"
  by (simp add: MAX_IMAGE_PIXELS_def)

lemma image_open_Inr:
  "image_open pil_open f = Inr img \<longleftrightarrow>
     pil_open f = Some img \<and> image_pixels img \<le> 2 * MAX_IMAGE_PIXELS"
  by (auto simp: image_open_def split: option.splits if_splits)

section \<open>Resizing to the same size\<close>

lemma nearest_src_same: "0 < n \<Longrightarrow> nearest_src n n x = x"
proof -
  assume n: "0 < n"
  have e: "(2 * x + 1) * n = n + x * (2 * n)" by (simp add: algebra_simps)
  have "(n + x * (2 * n)) div (2 * n) = x + n div (2 * n)"
    using div_mult_self3 [of "2 * n" x n] n by (simp add: add.commute)
  moreover have "n div (2 * n) = 0" using n by simp
  ultimately show ?thesis by (simp only: nearest_src_def e)
qed

lemma concat_rows_id:
  "length xs = h * w \<Longrightarrow> concat (map (\<lambda>y. map (\<lambda>x. xs ! (y * w + x)) [0..<w]) [0..<h]) = xs"
proof (induction h arbitrary: xs)
  case 0
  then show ?case by simp
next
  case (Suc h)
  let ?ys = "take (h * w) xs" and ?zs = "drop (h * w) xs"
  have ly: "length ?ys = h * w" using Suc.prems by simp
  have lz: "length ?zs = w" using Suc.prems by simp
  have "map (\<lambda>y. map (\<lambda>x. xs ! (y * w + x)) [0..<w]) [0..<h]
      = map (\<lambda>y. map (\<lambda>x. ?ys ! (y * w + x)) [0..<w]) [0..<h]"
  proof (intro map_cong refl)
    fix y x assume "y \<in> set [0..<h]" "x \<in> set [0..<w]"
    then have "y * w + x < h * w" using row_major_index_less [of y h x w] by (simp add: mult.commute)
    then show "xs ! (y * w + x) = ?ys ! (y * w + x)" by simp
  qed
  also have "concat \<dots> = ?ys" using Suc.IH [OF ly] .
  finally have a: "concat (map (\<lambda>y. map (\<lambda>x. xs ! (y * w + x)) [0..<w]) [0..<h]) = ?ys" .
  have b: "map (\<lambda>x. xs ! (h * w + x)) [0..<w] = ?zs"
    using Suc.prems lz by (intro nth_equalityI) simp_all
  show ?case using a b by simp
qed

lemma resize_nearest_same:
  assumes "wf_image im" and "0 < im_width im" and "0 < im_height im"
  shows "resize_nearest (im_width im, im_height im) im = im"
proof -
  have "concat (map (\<lambda>y. map (\<lambda>x. im_pixels im ! (nearest_src (im_height im) (im_height im) y * im_width im
           + nearest_src (im_width im) (im_width im) x)) [0..<im_width im]) [0..<im_height im])
        = concat (map (\<lambda>y. map (\<lambda>x. im_pixels im ! (y * im_width im + x)) [0..<im_width im]) [0..<im_height im])"
    using assms(2,3) by (simp add: nearest_src_same)
  also have "\<dots> = im_pixels im"
    using assms(1) by (intro concat_rows_id) (simp add: wf_image_def mult.commute)
  finally show ?thesis by (simp add: resize_nearest_def)
qed

section \<open>Claims about Pillow\<close>

text \<open>
  C15. Nearest-neighbour resizing only copies pixels: every pixel of the resized
  image is a pixel of the source (for a well-formed source of positive size).
\<close>

theorem resize_nearest_samples:
  assumes "wf_image im" and "0 < im_width im" and "0 < im_height im"
  shows "set (im_pixels (resize_nearest (w, h) im)) \<subseteq> set (im_pixels im)"
proof
  fix p assume "p \<in> set (im_pixels (resize_nearest (w, h) im))"
  then obtain x y where y: "y < h" and x: "x < w" and
    p: "p = im_pixels im ! (nearest_src (im_height im) h y * im_width im
                            + nearest_src (im_width im) w x)"
    by (auto simp: resize_nearest_def)
  have "nearest_src (im_height im) h y * im_width im + nearest_src (im_width im) w x
          < length (im_pixels im)"
    using assms x y nearest_src_less row_major_index_less by (simp add: wf_image_def)
  then show "p \<in> set (im_pixels im)" using p by simp
qed

theorem resize_nearest_samples_witness:
  "wf_image \<lparr>im_mode = Mode_L, im_width = 2, im_height = 1, im_pixels = [[7], [9]]\<rparr> \<and>
   0 < im_width \<lparr>im_mode = Mode_L, im_width = 2, im_height = 1, im_pixels = [[7], [9]]\<rparr> \<and>
   0 < im_height \<lparr>im_mode = Mode_L, im_width = 2, im_height = 1, im_pixels = [[7], [9]]\<rparr> \<and>
   set (im_pixels (resize_nearest (3, 2)
          \<lparr>im_mode = Mode_L, im_width = 2, im_height = 1, im_pixels = [[7], [9]]\<rparr>))
     \<subseteq> set [[7], [9 :: byte]]"
  using resize_nearest_samples [of "\<lparr>im_mode = Mode_L, im_width = 2, im_height = 1,
                                       im_pixels = [[7], [9]]\<rparr>" 3 2]
  by (simp add: wf_image_def)

text \<open>
  C21. Pillow's CMYK to RGB conversion (\<open>cmyk2rgb\<close>, used by \<open>load_img\<close>
  for CMYK JPEGs) computes each channel as \<open>(255 - C) * (255 - K) / 255\<close>
  rounded to the nearest integer, in 8-bit integer arithmetic that neither
  wraps nor needs its final clamp.
\<close>

theorem cmyk_channel_rounded:
  "\<bar>255 * int (unat (cmyk_channel c k)) - int (255 - unat c) * int (255 - unat k)\<bar> \<le> 127 \<and>
   unat (cmyk_channel c k) \<le> 255 - unat k"
proof -
  have a: "unat c \<le> 255" and nk: "255 - unat k \<le> 255" by (simp_all add: unat_byte_le)
  show ?thesis unfolding unat_cmyk_channel
    by (rule conjI [OF rounded_diff_bound [OF a muldiv255_le [OF a nk]
          muldiv255_round [OF a nk, THEN conjunct1] muldiv255_round [OF a nk, THEN conjunct2]]
          diff_le_self])
qed

end
