(* ===== verification/Tensor.thy ===== *)
theory Tensor
  imports Prelude
begin

text \<open>
  The NumPy arrays that flow through \<open>views.predict\<close> (views.py lines 57--61):
  an array is its shape and its row-major buffer of float32 values (modelled
  as reals).  The theory holds \<open>ndarray.reshape\<close> and Keras'
  \<open>vgg16.preprocess_input\<close> in its \<open>caffe\<close> mode (reverse the channel axis,
  subtract the ImageNet channel means), the view of the last axis as
  consecutive chunks, the array invariant and what each operation does to it.
\<close>

record ndarray =
  shape :: "nat list"
  data :: "real list"

definition wf_array :: "ndarray \<Rightarrow> bool" where
  "wf_array a \<longleftrightarrow> length (data a) = prod_list (shape a)"

section \<open>ndarray.reshape\<close>

text \<open>
  \<open>a.reshape(s)\<close> keeps the buffer and raises \<open>ValueError\<close> when the new
  shape does not hold exactly \<open>a.size\<close> elements.
\<close>

definition reshape :: "ndarray \<Rightarrow> nat list \<Rightarrow> ndarray result" where
  "reshape a s =
     (if prod_list s = prod_list (shape a) then Inr (a\<lparr>shape := s\<rparr>)
      else Inl (ValueError ''cannot reshape array''))"

section \<open>The last axis as chunks\<close>

text \<open>
  In a row-major buffer the elements \<open>x[i, ..., :]\<close> of the last axis are
  consecutive: the buffer is the concatenation of chunks of the last
  dimension's size.
\<close>

function chunks :: "nat \<Rightarrow> 'a list \<Rightarrow> 'a list list" where
  "chunks c xs = (if xs = [] \<or> c = 0 then [] else take c xs # chunks c (drop c xs))"
  by pat_completeness auto
termination
  by (relation "measure (\<lambda>(c, xs). length xs)") auto

section \<open>vgg16.preprocess_input, caffe mode\<close>

definition vgg16_mean :: "real list" where
  "vgg16_mean = [103.939, 116.779, 123.68]"

text \<open>
  One pixel \<open>x[i, ..., :]\<close>: \<open>x[..., ::-1]\<close> reverses it (RGB to BGR), then
  \<open>x[..., k] -= mean[k]\<close> for \<open>k = 0, 1, 2\<close>; channels past the third are
  left as they are.
\<close>

definition caffe_pixel :: "real list \<Rightarrow> real list" where
  "caffe_pixel p = (let q = rev p in map2 (-) (take 3 q) vgg16_mean @ drop 3 q)"

text \<open>
  \<open>x[..., 2]\<close> raises \<open>IndexError\<close> on a last axis shorter than 3, and
  \<open>x[..., ::-1]\<close> on a 0-dimensional array.
\<close>

definition preprocess_input :: "ndarray \<Rightarrow> ndarray result" where
  "preprocess_input a =
     (if shape a = [] \<or> last (shape a) < 3 then Inl IndexError
      else Inr (a\<lparr>data := concat (map caffe_pixel (chunks (last (shape a)) (data a)))\<rparr>))"

section \<open>Lemmas on chunks\<close>

declare chunks.simps [simp del]

lemma chunks_Nil [simp]: "chunks c [] = []"
  by (simp add: chunks.simps)

lemma chunks_not_Nil:
  "xs \<noteq> [] \<Longrightarrow> 0 < c \<Longrightarrow> chunks c xs = take c xs # chunks c (drop c xs)"
  by (simp add: chunks.simps [of c xs])

lemma concat_chunks: "0 < c \<Longrightarrow> concat (chunks c xs) = xs"
proof (induction c xs rule: chunks.induct)
  case (1 c xs)
  then show ?case by (cases "xs = []") (simp_all add: chunks_not_Nil)
qed

lemma chunks_length:
  "c dvd length xs \<Longrightarrow> ch \<in> set (chunks c xs) \<Longrightarrow> length ch = c"
proof (induction c xs rule: chunks.induct)
  case (1 c xs)
  show ?case
  proof (cases "xs = [] \<or> c = 0")
    case True
    with "1.prems" show ?thesis by (auto simp: chunks.simps [of c xs])
  next
    case False
    then have "c \<le> length xs" using "1.prems"(1) by (auto dest: dvd_imp_le)
    moreover have "c dvd length (drop c xs)"
      using "1.prems"(1) by (simp add: dvd_diff_nat)
    ultimately show ?thesis
      using False "1.IH" "1.prems"(2) by (auto simp: chunks.simps [of c xs])
  qed
qed

text \<open>A map over chunks that keeps each chunk's length keeps the buffer's length.\<close>

lemma length_concat_map_chunks:
  assumes "\<And>ch. length ch = c \<Longrightarrow> length (f ch) = c"
    and "c dvd length xs" and "0 < c"
  shows "length (concat (map f (chunks c xs))) = length xs"
proof -
  have "\<forall>ch \<in> set (chunks c xs). length (f ch) = length ch"
    using assms chunks_length by metis
  then have "length (concat (map f (chunks c xs))) = length (concat (chunks c xs))"
    by (simp add: length_concat comp_def cong: map_cong)
  then show ?thesis using assms(3) by (simp add: concat_chunks)
qed

text \<open>Element \<open>i\<close> of a chunk-wise map is element \<open>i mod c\<close> of its chunk.\<close>

lemma nth_concat_map_chunks:
  "(\<And>ch. length ch = c \<Longrightarrow> length (f ch) = c) \<Longrightarrow> c dvd length xs \<Longrightarrow> i < length xs \<Longrightarrow>
    concat (map f (chunks c xs)) ! i = f (take c (drop (c * (i div c)) xs)) ! (i mod c)"
proof (induction c xs arbitrary: i rule: chunks.induct)
  case (1 c xs)
  note fl = "1.prems"(1)
  from "1.prems"(2,3) have c: "0 < c" and ne: "xs \<noteq> []"
    by (auto intro: Nat.gr0I)
  have cle: "c \<le> length xs" using "1.prems"(2) ne by (auto dest: dvd_imp_le)
  have lf: "length (f (take c xs)) = c" using cle by (intro fl) simp
  have unf: "concat (map f (chunks c xs)) = f (take c xs) @ concat (map f (chunks c (drop c xs)))"
    using c ne by (simp add: chunks_not_Nil)
  show ?case
  proof (cases "i < c")
    case True
    then show ?thesis by (simp add: unf nth_append lf)
  next
    case False
    have dv: "c dvd length (drop c xs)" using "1.prems"(2) by (simp add: dvd_diff_nat)
    have lt: "i - c < length (drop c xs)" using "1.prems"(3) False by simp
    have "concat (map f (chunks c xs)) ! i = concat (map f (chunks c (drop c xs))) ! (i - c)"
      using False by (simp add: unf nth_append lf)
    also have "\<dots> = f (take c (drop (c * ((i - c) div c)) (drop c xs))) ! ((i - c) mod c)"
      using "1.IH" ne c fl dv lt by blast
    also have "\<dots> = f (take c (drop (c * (i div c)) xs)) ! (i mod c)"
    proof -
      have "i div c = Suc ((i - c) div c)" and "i mod c = (i - c) mod c"
        using False c by (simp_all add: le_div_geq le_mod_geq)
      then show ?thesis by (simp add: algebra_simps)
    qed
    finally show ?thesis .
  qed
qed

lemma last_dvd_prod_list: "s \<noteq> [] \<Longrightarrow> last s dvd prod_list (s :: nat list)"
  by (induction s rule: rev_induct) auto

lemma length_caffe_pixel: "3 \<le> length p \<Longrightarrow> length (caffe_pixel p) = length p"
  by (simp add: caffe_pixel_def vgg16_mean_def Let_def)

lemma nth_caffe_pixel:
  "length p = 3 \<Longrightarrow> k < 3 \<Longrightarrow> caffe_pixel p ! k = p ! (2 - k) - vgg16_mean ! k"
proof -
  assume l: "length p = 3" and k: "k < 3"
  then obtain a b c where "p = [a, b, c]"
    by (metis length_0_conv length_Suc_conv numeral_3_eq_3)
  moreover from k have "k = 0 \<or> k = 1 \<or> k = 2" by arith
  ultimately show ?thesis by (auto simp: caffe_pixel_def vgg16_mean_def)
qed

section \<open>Properties of reshape\<close>

lemma reshape_wf:
  "wf_array a \<Longrightarrow> reshape a s = Inr b \<Longrightarrow> wf_array b \<and> shape b = s \<and> data b = data a"
  by (auto simp: reshape_def wf_array_def split: if_splits)

section \<open>Properties of preprocess_input\<close>

lemma preprocess_input_Inr_iff:
  "preprocess_input a = Inr b \<longleftrightarrow>
     shape a \<noteq> [] \<and> 3 \<le> last (shape a) \<and>
     b = a\<lparr>data := concat (map caffe_pixel (chunks (last (shape a)) (data a)))\<rparr>"
  by (auto simp: preprocess_input_def)

lemma preprocess_input_wf:
  assumes "wf_array a" and "preprocess_input a = Inr b"
  shows "wf_array b \<and> shape b = shape a \<and> length (data b) = length (data a)"
proof -
  from assms(2) have ne: "shape a \<noteq> []" and c3: "3 \<le> last (shape a)"
    and b: "b = a\<lparr>data := concat (map caffe_pixel (chunks (last (shape a)) (data a)))\<rparr>"
    by (auto simp: preprocess_input_Inr_iff)
  have dv: "last (shape a) dvd length (data a)"
    using assms(1) ne by (simp add: wf_array_def last_dvd_prod_list)
  have "length (data b) = length (data a)"
    using c3 dv by (simp add: b length_concat_map_chunks length_caffe_pixel)
  then show ?thesis using assms(1) b by (simp add: wf_array_def)
qed

text \<open>
  The chunk-wise definition agrees with the element-wise reading of the Keras
  code for an image array (last axis 3): element \<open>i\<close> of the result is the
  mirrored channel of the same pixel minus that channel's mean.
\<close>

lemma preprocess_input_nth:
  assumes "wf_array a" and "shape a \<noteq> []" and "last (shape a) = 3"
    and "i < length (data a)"
  shows "\<exists>b. preprocess_input a = Inr b \<and>
    data b ! i = data a ! (3 * (i div 3) + (2 - i mod 3)) - vgg16_mean ! (i mod 3)"
proof -
  let ?xs = "data a"
  have dv: "3 dvd length ?xs"
    using assms(1-3) last_dvd_prod_list [of "shape a"] by (simp add: wf_array_def)
  have room: "3 * (i div 3) + 3 \<le> length ?xs"
  proof -
    obtain m where m: "length ?xs = 3 * m" using dv by (auto elim: dvdE)
    with assms(4) have "i div 3 < m" by simp
    with m show ?thesis by simp
  qed
  have chunk: "length (take 3 (drop (3 * (i div 3)) ?xs)) = 3"
    using room by simp
  have "concat (map caffe_pixel (chunks 3 ?xs)) ! i
      = caffe_pixel (take 3 (drop (3 * (i div 3)) ?xs)) ! (i mod 3)"
    by (rule nth_concat_map_chunks) (simp_all add: length_caffe_pixel dv assms(4))
  also have "\<dots> = take 3 (drop (3 * (i div 3)) ?xs) ! (2 - i mod 3) - vgg16_mean ! (i mod 3)"
    using chunk by (simp add: nth_caffe_pixel)
  also have "\<dots> = ?xs ! (3 * (i div 3) + (2 - i mod 3)) - vgg16_mean ! (i mod 3)"
    using room by simp
  finally show ?thesis using assms(2,3) by (simp add: preprocess_input_def)
qed

lemma mirror_index_less:
  "3 dvd (n :: nat) \<Longrightarrow> i < n \<Longrightarrow> 3 * (i div 3) + (2 - i mod 3) < n"
proof -
  assume "3 dvd n" and i: "i < n"
  then obtain m where m: "n = 3 * m" by (auto elim: dvdE)
  with i have "i div 3 < m" by simp
  with m show ?thesis by simp
qed

text \<open>
  Bounds: on an image array whose values lie in \<open>[lo, hi]\<close>, channel \<open>k\<close>
  of the result lies in \<open>[lo - mean[k], hi - mean[k]]\<close>.
\<close>

lemma preprocess_input_range:
  assumes "wf_array a" and "shape a \<noteq> []" and "last (shape a) = 3"
    and "\<forall>v \<in> set (data a). lo \<le> v \<and> v \<le> hi"
  shows "\<exists>b. preprocess_input a = Inr b \<and> length (data b) = length (data a) \<and>
    (\<forall>i < length (data b). lo - vgg16_mean ! (i mod 3) \<le> data b ! i \<and>
                            data b ! i \<le> hi - vgg16_mean ! (i mod 3))"
proof -
  have dv: "3 dvd length (data a)"
    using assms(1-3) last_dvd_prod_list [of "shape a"] by (simp add: wf_array_def)
  obtain b where b: "preprocess_input a = Inr b"
    using assms(2,3) by (simp add: preprocess_input_def)
  have len: "length (data b) = length (data a)"
    using preprocess_input_wf [OF assms(1) b] by simp
  have "lo - vgg16_mean ! (i mod 3) \<le> data b ! i \<and> data b ! i \<le> hi - vgg16_mean ! (i mod 3)"
    if i: "i < length (data b)" for i
  proof -
    have ia: "i < length (data a)" using i len by simp
    have "data b ! i = data a ! (3 * (i div 3) + (2 - i mod 3)) - vgg16_mean ! (i mod 3)"
      using preprocess_input_nth [OF assms(1-3) ia] b by auto
    moreover have "data a ! (3 * (i div 3) + (2 - i mod 3)) \<in> set (data a)"
      using mirror_index_less [OF dv ia] by simp
    ultimately show ?thesis using assms(4) by auto
  qed
  with b len show ?thesis by blast
qed

lemma vgg16_mean_bounds:
  "k < 3 \<Longrightarrow> 103.939 \<le> vgg16_mean ! k \<and> vgg16_mean ! k \<le> 123.68"
proof -
  assume "k < 3"
  then have "k = 0 \<or> k = 1 \<or> k = 2" by arith
  then show ?thesis by (auto simp: vgg16_mean_def)
qed

section \<open>Claims about the array operations\<close>

text \<open>
  C8. Equivalence of the chunk-wise model of \<open>preprocess_input\<close> with the
  element-wise reading of the Keras code on an image array (last axis 3): the
  array keeps its shape, and element \<open>i\<close> is the mirrored channel of the same
  pixel minus that channel's ImageNet mean.
\<close>

theorem preprocess_input_image:
  assumes "wf_array a" and "shape a \<noteq> []" and "last (shape a) = 3"
  shows "\<exists>b. preprocess_input a = Inr b \<and> wf_array b \<and> shape b = shape a \<and>
    length (data b) = length (data a) \<and>
    (\<forall>i < length (data b).
       data b ! i = data a ! (3 * (i div 3) + (2 - i mod 3)) - vgg16_mean ! (i mod 3))"
proof -
  obtain b where b: "preprocess_input a = Inr b"
    using assms(2,3) by (simp add: preprocess_input_def)
  have wb: "wf_array b \<and> shape b = shape a \<and> length (data b) = length (data a)"
    using preprocess_input_wf [OF assms(1) b] .
  have "data b ! i = data a ! (3 * (i div 3) + (2 - i mod 3)) - vgg16_mean ! (i mod 3)"
    if "i < length (data b)" for i
    using preprocess_input_nth [OF assms, of i] that wb b by auto
  with b wb show ?thesis by blast
qed

theorem preprocess_input_image_witness:
  "wf_array \<lparr>shape = [1, 1, 3], data = [10, 20, 30]\<rparr> \<and>
   shape \<lparr>shape = [1, 1, 3], data = [10, 20, 30]\<rparr> \<noteq> [] \<and>
   last (shape \<lparr>shape = [1, 1, 3], data = [10, 20, 30]\<rparr>) = 3 \<and>
   (\<exists>b. preprocess_input \<lparr>shape = [1, 1, 3], data = [10, 20, 30]\<rparr> = Inr b \<and>
        data b ! 0 = 30 - 103.939)"
proof -
  let ?a = "\<lparr>shape = [1, 1, 3], data = [10, 20, 30 :: real]\<rparr>"
  have h: "wf_array ?a" "shape ?a \<noteq> []" "last (shape ?a) = 3" by (simp_all add: wf_array_def)
  obtain b where "preprocess_input ?a = Inr b"
    and "\<forall>i < length (data b). data b ! i =
           data ?a ! (3 * (i div 3) + (2 - i mod 3)) - vgg16_mean ! (i mod 3)"
    and "length (data b) = length (data ?a)"
    using preprocess_input_image [OF h] by blast
  then show ?thesis using h by (auto simp: vgg16_mean_def)
qed

end
