(* ===== verification/Imaging.thy ===== *)
theory Imaging
  imports Pillow Tensor
begin

text \<open>
  The image side of \<open>views.predict\<close> (views.py lines 51--57): Keras'
  \<open>load_img(img_file, target = (224, 224))\<close> (open with Pillow, convert to
  RGB, nearest-neighbour resize) and \<open>img_to_array\<close>.
\<close>

section \<open>keras.utils.load_img and img_to_array\<close>

text \<open>
  \<open>load_img(f, color_mode='rgb', target=(h, w), interpolation='nearest')\<close>:
  open the image, convert it to RGB when its mode is not RGB, and resize it to
  \<open>(w, h)\<close> (Pillow's width-height order) when its size differs.
\<close>

definition load_img :: "(bytes \<Rightarrow> pil_image option) \<Rightarrow> bytes \<Rightarrow> nat \<times> nat \<Rightarrow> pil_image result" where
  "load_img pil_open f target =
     (case image_open pil_open f of
        Inl e \<Rightarrow> Inl e
      | Inr img \<Rightarrow>
          (let img = (if im_mode img \<noteq> Mode_RGB then convert_rgb img else img);
               width_height = (snd target, fst target)
           in Inr (if (im_width img, im_height img) \<noteq> width_height
                   then resize_nearest width_height img else img)))"

text \<open>
  \<open>img_to_array\<close> (channels last, float32): the array of shape
  \<open>(height, width, bands)\<close> whose buffer is the pixels' band values in order.
\<close>

definition img_to_array :: "pil_image \<Rightarrow> ndarray" where
  "img_to_array im =
     \<lparr>shape = [im_height im, im_width im, bands (im_mode im)],
      data = map (\<lambda>b. real (unat b)) (concat (im_pixels im))\<rparr>"

section \<open>load_img and img_to_array\<close>

lemma load_img_Inl:
  "image_open pil_open f = Inl e \<Longrightarrow> load_img pil_open f target = Inl e"
  by (simp add: load_img_def)

lemma load_img_Some:
  assumes "image_open pil_open f = Inr img" and "wf_image img"
    and "0 < im_width img" and "0 < im_height img"
  shows "\<exists>im. load_img pil_open f (h, w) = Inr im \<and> wf_image im \<and>
    im_mode im = Mode_RGB \<and> im_width im = w \<and> im_height im = h"
proof -
  define img' where "img' = (if im_mode img \<noteq> Mode_RGB then convert_rgb img else img)"
  have wf': "wf_image img'" and rgb': "im_mode img' = Mode_RGB"
    and w': "im_width img' = im_width img" and h': "im_height img' = im_height img"
    using assms(2) convert_rgb_wf [of img] by (auto simp: img'_def)
  have res: "load_img pil_open f (h, w) =
      Inr (if (im_width img', im_height img') \<noteq> (w, h) then resize_nearest (w, h) img' else img')"
    using assms(1) by (simp add: load_img_def img'_def Let_def)
  show ?thesis
  proof (cases "(im_width img', im_height img') = (w, h)")
    case True
    then show ?thesis using res wf' rgb' by simp
  next
    case False
    then show ?thesis using res resize_nearest_wf [of img' w h] wf' rgb' w' h' assms(3,4) by simp
  qed
qed

lemma img_to_array_wf:
  "wf_image im \<Longrightarrow> wf_array (img_to_array im)"
proof -
  assume wf: "wf_image im"
  then have "length (concat (im_pixels im)) = length (im_pixels im) * bands (im_mode im)"
    by (simp add: wf_image_def length_concat comp_def sum_list_triv cong: map_cong)
  with wf show ?thesis
    by (simp add: wf_array_def img_to_array_def wf_image_def)
qed

lemma img_to_array_range:
  "v \<in> set (data (img_to_array im)) \<Longrightarrow> 0 \<le> v \<and> v \<le> 255"
  using real_unat_byte_bounds by (auto simp: img_to_array_def)

section \<open>Claims about load_img and img_to_array\<close>

text \<open>
  C17. Equivalence: \<open>load_img\<close> skips the resize when the image already has
  the target size; the skip is an optimisation, since resizing a well-formed
  image to its own size gives the image back.
\<close>

theorem load_img_resize_always:
  assumes "\<forall>img. image_open pil_open f = Inr img \<longrightarrow>
             wf_image img \<and> 0 < im_width img \<and> 0 < im_height img"
  shows "load_img pil_open f (h, w) =
    (case image_open pil_open f of
       Inl e \<Rightarrow> Inl e
     | Inr img \<Rightarrow>
         Inr (resize_nearest (w, h) (if im_mode img \<noteq> Mode_RGB then convert_rgb img else img)))"
proof (cases "image_open pil_open f")
  case (Inl e)
  then show ?thesis by (simp add: load_img_def)
next
  case (Inr img)
  define img' where "img' = (if im_mode img \<noteq> Mode_RGB then convert_rgb img else img)"
  have "wf_image img \<and> 0 < im_width img \<and> 0 < im_height img" using assms Inr by blast
  then have wf': "wf_image img'" and w': "0 < im_width img'" and h': "0 < im_height img'"
    using convert_rgb_wf [of img] by (auto simp: img'_def)
  have "(if (im_width img', im_height img') \<noteq> (w, h) then resize_nearest (w, h) img' else img')
          = resize_nearest (w, h) img'"
    using resize_nearest_same [OF wf' w' h'] by auto
  then show ?thesis using Inr by (simp add: load_img_def img'_def [symmetric] Let_def)
qed

theorem load_img_resize_always_witness:
  "load_img (\<lambda>b. Some \<lparr>im_mode = Mode_L, im_width = 1, im_height = 1, im_pixels = [[5]]\<rparr>) [1] (1, 1) =
     Inr (resize_nearest (1, 1)
            (convert_rgb \<lparr>im_mode = Mode_L, im_width = 1, im_height = 1, im_pixels = [[5]]\<rparr>))"
  using load_img_resize_always [of "\<lambda>b. Some \<lparr>im_mode = Mode_L, im_width = 1, im_height = 1,
                                                 im_pixels = [[5]]\<rparr>" "[1]" 1 1]
  by (simp add: wf_image_def image_open_def image_pixels_def MAX_IMAGE_PIXELS_def)

end
