(* ===== verification/Forms.thy ===== *)
theory Forms
  imports Imaging
begin

text \<open>
  The form validator: \<open>ImageUploadForm\<close> (forms.py lines 8--9), a Django
  form with one field \<open>image = forms.ImageField()\<close>, and the parts of Django
  it runs on: the request's \<open>MultiValueDict\<close>s, uploaded files, and the
  cleaning chain of \<open>ImageField\<close> with its defaults (required, no empty
  files, no maximum name length, the image-extension validator).  Pillow's
  \<open>Image.open(...).verify()\<close> is \<open>image_open\<close> over the same decoders
  \<open>pil_open\<close> that \<open>load_img\<close> uses, decompression-bomb check included; its
  supported file extensions are a parameter.
\<close>

section \<open>Request data\<close>

text \<open>
  \<open>MultiValueDict\<close> (\<open>request.POST\<close>, \<open>request.FILES\<close>): a key may carry
  several values, in order; \<open>d.get(k)\<close> returns the last one, or \<open>None\<close>.
\<close>

type_synonym ('k, 'v) multi_value_dict = "('k \<times> 'v) list"

definition mvd_get :: "('k, 'v) multi_value_dict \<Rightarrow> 'k \<Rightarrow> 'v option" where
  "mvd_get d k =
     (let kvs = filter (\<lambda>kv. fst kv = k) d in if kvs = [] then None else Some (snd (last kvs)))"

record uploaded_file =
  file_name :: string
  file_content :: bytes

definition file_size :: "uploaded_file \<Rightarrow> nat" where
  "file_size f = length (file_content f)"

section \<open>ImageField cleaning\<close>

datatype field_error =
    Required
  | Invalid
  | Empty
  | InvalidImage
  | InvalidExtension string
  | Contradiction

text \<open>
  \<open>Path(name).suffix\<close>: from the last dot of the name, unless the dot is the
  first or the last character.
\<close>

definition path_suffix :: "string \<Rightarrow> string" where
  "path_suffix name =
     (case filter (\<lambda>i. name ! i = CHR ''.'') [0..<length name] of
        [] \<Rightarrow> []
      | is \<Rightarrow> (let i = last is in if 0 < i \<and> i < length name - 1 then drop i name else []))"

definition lower_char :: "char \<Rightarrow> char" where
  "lower_char c = (let n = (of_char c :: nat) in if 65 \<le> n \<and> n \<le> 90 then char_of (n + 32) else c)"

definition file_extension :: "string \<Rightarrow> string" where
  "file_extension name = map lower_char (drop 1 (path_suffix name))"

text \<open>
  \<open>ImageField.to_python\<close> after \<open>FileField.to_python\<close>: no file gives
  \<open>None\<close>; a nameless or empty file is invalid; a file Pillow cannot open
  and verify is an invalid image.
\<close>

definition image_to_python ::
  "(bytes \<Rightarrow> pil_image option) \<Rightarrow> uploaded_file option \<Rightarrow> field_error + uploaded_file option" where
  "image_to_python pil_open upload =
     (case upload of
        None \<Rightarrow> Inr None
      | Some f \<Rightarrow>
          (if file_name f = [] then Inl Invalid
           else if file_size f = 0 then Inl Empty
           else if isl (image_open pil_open (file_content f)) then Inl InvalidImage
           else Inr (Some f)))"

text \<open>
  \<open>Field.clean\<close>: \<open>to_python\<close>, then \<open>validate\<close> (the required check),
  then the validators (\<open>validate_image_file_extension\<close>).
\<close>

definition image_field_clean ::
  "(bytes \<Rightarrow> pil_image option) \<Rightarrow> string list \<Rightarrow> uploaded_file option \<Rightarrow> field_error + uploaded_file" where
  "image_field_clean pil_open extensions upload =
     (case image_to_python pil_open upload of
        Inl e \<Rightarrow> Inl e
      | Inr None \<Rightarrow> Inl Required
      | Inr (Some f) \<Rightarrow>
          (if file_extension (file_name f) \<notin> set extensions
           then Inl (InvalidExtension (file_extension (file_name f)))
           else Inr f))"

section \<open>ImageUploadForm\<close>

text \<open>
  \<open>ImageUploadForm()\<close> is unbound; \<open>ImageUploadForm(request.POST,
  request.FILES)\<close> is bound to the submitted data.  The field reads its
  value through its widget, \<open>ClearableFileInput\<close>.
\<close>

record image_upload_form =
  is_bound :: bool
  form_data :: "(string, string) multi_value_dict"
  form_files :: "(string, uploaded_file) multi_value_dict"

definition ImageUploadForm :: image_upload_form where
  "ImageUploadForm = \<lparr>is_bound = False, form_data = [], form_files = []\<rparr>"

definition ImageUploadForm_bound ::
  "(string, string) multi_value_dict \<Rightarrow> (string, uploaded_file) multi_value_dict \<Rightarrow> image_upload_form" where
  "ImageUploadForm_bound post files = \<lparr>is_bound = True, form_data = post, form_files = files\<rparr>"

section \<open>The field's widget\<close>

text \<open>
  \<open>CheckboxInput.value_from_datadict\<close>: a missing key is \<open>False\<close>; the
  strings \<open>true\<close> and \<open>false\<close> (any case) are the booleans; any other string
  is true when it is not empty.
\<close>

definition checkbox_value :: "(string, string) multi_value_dict \<Rightarrow> string \<Rightarrow> bool" where
  "checkbox_value post name =
     (case mvd_get post name of
        None \<Rightarrow> False
      | Some v \<Rightarrow>
          (let l = map lower_char v in
           if l = ''true'' then True else if l = ''false'' then False else v \<noteq> []))"

text \<open>
  \<open>ClearableFileInput.value_from_datadict\<close>, the widget of \<open>ImageField\<close>:
  the upload \<open>files.get(name)\<close>; for a field that is not required, a checked
  \<open>name-clear\<close> box clears the field, or contradicts an upload (an uploaded
  file is true when it has a name).
\<close>

datatype widget_value = Widget_upload "uploaded_file option" | Widget_clear | Widget_contradiction

definition clearable_file_input_value ::
  "bool \<Rightarrow> (string, string) multi_value_dict \<Rightarrow> (string, uploaded_file) multi_value_dict \<Rightarrow> string \<Rightarrow>
   widget_value" where
  "clearable_file_input_value is_required post files name =
     (let upload = mvd_get files name in
      if \<not> is_required \<and> checkbox_value post (name @ ''-clear'') then
        (case upload of
           Some f \<Rightarrow> if file_name f \<noteq> [] then Widget_contradiction else Widget_clear
         | None \<Rightarrow> Widget_clear)
      else Widget_upload upload)"

text \<open>
  \<open>form.full_clean()\<close> for the one field: the widget's value, then
  \<open>FileField.clean\<close> (a contradiction is an error, a cleared required field
  is no file) and the cleaning of \<open>ImageField\<close>, which is required.
\<close>

definition form_clean ::
  "(bytes \<Rightarrow> pil_image option) \<Rightarrow> string list \<Rightarrow> image_upload_form \<Rightarrow> field_error + uploaded_file" where
  "form_clean pil_open extensions form =
     (case clearable_file_input_value True (form_data form) (form_files form) ''image'' of
        Widget_contradiction \<Rightarrow> Inl Contradiction
      | Widget_clear \<Rightarrow> image_field_clean pil_open extensions None
      | Widget_upload upload \<Rightarrow> image_field_clean pil_open extensions upload)"

text \<open>\<open>form.is_valid()\<close>: the form is bound and cleaning raised no error.\<close>

definition is_valid :: "(bytes \<Rightarrow> pil_image option) \<Rightarrow> string list \<Rightarrow> image_upload_form \<Rightarrow> bool" where
  "is_valid pil_open extensions form \<longleftrightarrow>
     is_bound form \<and> \<not> isl (form_clean pil_open extensions form)"

text \<open>\<open>form.cleaned_data['image']\<close> of a valid form.\<close>

definition cleaned_image ::
  "(bytes \<Rightarrow> pil_image option) \<Rightarrow> string list \<Rightarrow> image_upload_form \<Rightarrow> uploaded_file option" where
  "cleaned_image pil_open extensions form =
     (case form_clean pil_open extensions form of Inr f \<Rightarrow> Some f | Inl _ \<Rightarrow> None)"

section \<open>Properties of the validator\<close>

text \<open>The field is required, so its value is the upload whatever the clear box says.\<close>

lemma form_clean_upload:
  "form_clean pil_open extensions form =
     image_field_clean pil_open extensions (mvd_get (form_files form) ''image'')"
  by (simp add: form_clean_def clearable_file_input_value_def)

lemma image_field_clean_Inr_iff:
  "image_field_clean pil_open extensions upload = Inr f \<longleftrightarrow>
     upload = Some f \<and> file_name f \<noteq> [] \<and> file_size f \<noteq> 0 \<and>
     \<not> isl (image_open pil_open (file_content f)) \<and> file_extension (file_name f) \<in> set extensions"
  by (auto simp: image_field_clean_def image_to_python_def split: option.splits sum.splits if_splits)

lemma image_field_clean_errors:
  "image_field_clean pil_open extensions None = Inl Required"
  "file_name f = [] \<Longrightarrow> image_field_clean pil_open extensions (Some f) = Inl Invalid"
  "file_name f \<noteq> [] \<Longrightarrow> file_size f = 0 \<Longrightarrow>
     image_field_clean pil_open extensions (Some f) = Inl Empty"
  "file_name f \<noteq> [] \<Longrightarrow> file_size f \<noteq> 0 \<Longrightarrow> isl (image_open pil_open (file_content f)) \<Longrightarrow>
     image_field_clean pil_open extensions (Some f) = Inl InvalidImage"
  by (simp_all add: image_field_clean_def image_to_python_def)

lemma is_valid_iff:
  "is_valid pil_open extensions form \<longleftrightarrow>
     is_bound form \<and> (\<exists>f. form_clean pil_open extensions form = Inr f)"
  by (cases "form_clean pil_open extensions form") (auto simp: is_valid_def)

lemma is_valid_cleaned_image:
  assumes "is_valid pil_open extensions form"
  shows "\<exists>f img. cleaned_image pil_open extensions form = Some f \<and>
    mvd_get (form_files form) ''image'' = Some f \<and>
    image_open pil_open (file_content f) = Inr img \<and> file_extension (file_name f) \<in> set extensions"
proof -
  obtain f where f: "form_clean pil_open extensions form = Inr f"
    using assms by (auto simp: is_valid_iff)
  then have "mvd_get (form_files form) ''image'' = Some f" and "\<not> isl (image_open pil_open (file_content f))"
    and "file_extension (file_name f) \<in> set extensions"
    by (auto simp: form_clean_upload image_field_clean_Inr_iff)
  with f show ?thesis by (auto simp: cleaned_image_def not_isl_iff)
qed

lemma unbound_not_valid: "\<not> is_valid pil_open extensions ImageUploadForm"
  by (simp add: is_valid_def ImageUploadForm_def)

lemma last_filter_upt:
  assumes "P i" and "i < n" and "\<forall>j. i < j \<and> j < n \<longrightarrow> \<not> P j"
  shows "filter P [0..<n] \<noteq> [] \<and> last (filter P [0..<n]) = i"
proof -
  have "[0..<n] = [0..<i] @ [i..<n]" using upt_add_eq_append [of 0 i "n - i"] assms(2) by simp
  also have "[i..<n] = i # [Suc i..<n]" using assms(2) by (rule upt_conv_Cons)
  finally have split: "[0..<n] = [0..<i] @ [i] @ [Suc i..<n]" by simp
  have "filter P [Suc i..<n] = []" using assms(3) by (auto simp: filter_empty_conv)
  then have "filter P [0..<n] = filter P [0..<i] @ [i]" using assms(1) by (simp add: split)
  then show ?thesis by simp
qed

lemma path_suffix_eq:
  "filter (\<lambda>i. name ! i = CHR ''.'') [0..<length name] = dots \<Longrightarrow> dots \<noteq> [] \<Longrightarrow>
     path_suffix name =
       (if 0 < last dots \<and> last dots < length name - 1 then drop (last dots) name else [])"
  by (cases dots) (simp_all add: path_suffix_def)

section \<open>Claims about the validator\<close>

text \<open>
  C10. A bound \<open>ImageUploadForm\<close> is valid exactly when the last file sent
  under \<open>image\<close> has a name, is not empty, is decoded by Pillow and has a
  supported extension.
\<close>

theorem is_valid_bound_iff:
  "is_valid pil_open extensions (ImageUploadForm_bound post files) \<longleftrightarrow>
     (\<exists>f. mvd_get files ''image'' = Some f \<and> file_name f \<noteq> [] \<and> file_size f \<noteq> 0 \<and>
          \<not> isl (image_open pil_open (file_content f)) \<and> file_extension (file_name f) \<in> set extensions)"
  by (simp add: is_valid_iff form_clean_upload ImageUploadForm_bound_def image_field_clean_Inr_iff)

theorem is_valid_bound_iff_witness:
  "is_valid (\<lambda>b. None) [''jpg''] (ImageUploadForm_bound [] [(''image'', \<lparr>file_name = ''fake.jpg'', file_content = [104]\<rparr>)])
   \<longleftrightarrow> (\<exists>f. mvd_get [(''image'', \<lparr>file_name = ''fake.jpg'', file_content = [104]\<rparr>)] ''image'' = Some f \<and>
          file_name f \<noteq> [] \<and> file_size f \<noteq> 0 \<and> \<not> isl (image_open (\<lambda>b. None) (file_content f)) \<and>
          file_extension (file_name f) \<in> set [''jpg''])"
  by (rule is_valid_bound_iff)

text \<open>
  C16. Round trip of file names: the extension checked of \<open>stem.ext\<close> (a
  non-empty stem, an extension without dots) is the extension, lower-cased.
\<close>

theorem file_extension_append:
  assumes "stem \<noteq> []" and "ext \<noteq> []" and "CHR ''.'' \<notin> set ext"
  shows "file_extension (stem @ ''.'' @ ext) = map lower_char ext"
proof -
  let ?name = "stem @ ''.'' @ ext" and ?i = "length stem"
  have "\<forall>j. ?i < j \<and> j < length ?name \<longrightarrow> ?name ! j \<noteq> CHR ''.''"
  proof (intro allI impI)
    fix j assume j: "?i < j \<and> j < length ?name"
    then have "?name ! j = ext ! (j - ?i - 1)" by (simp add: nth_append)
    moreover have "j - ?i - 1 < length ext" using j assms(2) by (cases ext) auto
    ultimately show "?name ! j \<noteq> CHR ''.''" using assms(3) by (metis nth_mem)
  qed
  then have l: "filter (\<lambda>i. ?name ! i = CHR ''.'') [0..<length ?name] \<noteq> [] \<and>
                last (filter (\<lambda>i. ?name ! i = CHR ''.'') [0..<length ?name]) = ?i"
    by (intro last_filter_upt) (simp_all add: nth_append)
  have "path_suffix ?name = drop ?i ?name"
    using path_suffix_eq [OF refl] l assms(1,2) by simp
  then have "path_suffix ?name = ''.'' @ ext" by simp
  then show ?thesis by (simp add: file_extension_def)
qed

theorem file_extension_append_witness:
  "''Photo'' \<noteq> [] \<and> ''JPG'' \<noteq> [] \<and> CHR ''.'' \<notin> set ''JPG'' \<and>
   file_extension (''Photo'' @ ''.'' @ ''JPG'') = map lower_char ''JPG''"
  using file_extension_append [of "''Photo''" "''JPG''"] by simp

text \<open>
  C23. Non-interference: the cleaning of a bound \<open>ImageUploadForm\<close> depends
  on \<open>request.FILES\<close> only.  The other fields of the POST (the hidden
  \<open>img_data\<close>, or an \<open>image-clear\<close> box of \<open>ClearableFileInput\<close>, which a
  required field ignores) change nothing.
\<close>

theorem form_clean_ignores_post:
  "form_clean pil_open extensions (ImageUploadForm_bound post files) =
   form_clean pil_open extensions (ImageUploadForm_bound post' files)"
  by (simp add: form_clean_upload ImageUploadForm_bound_def)

end
