(* ===== verification/Decode.thy ===== *)
theory Decode
  imports Tensor "HOL-Library.Multiset"
begin

text \<open>
  Keras' \<open>decode_predictions(result, top = 5)\<close> (called at views.py line 75):
  for every row of a \<open>(N, 1000)\<close> score array, the indices of the \<open>top\<close>
  largest scores (\<open>pred.argsort()[-topn:][::-1]\<close>), each paired with its
  ImageNet class id and name and its score, then sorted by score, descending.
  The class table \<open>CLASS_INDEX\<close> is a parameter \<open>class_index\<close>.
  The theory proves that a row's result is a top-k selection (an abstract
  specification \<open>is_top_k\<close> and a refinement lemma), sorted, of the right
  length, and that the final re-sort never changes the order.  NumPy's
  \<open>argsort\<close> is not stable: \<open>is_argsort\<close> gives every order it may return,
  the model's stable \<open>argsort\<close> is one of them, and the top-k property and
  the listed confidences hold for all of them alike.  The confidences shown
  add up to at most the row's mass and at least their share of it, they are
  the first \<open>top\<close> of all scores sorted in descending order.
\<close>

type_synonym prediction = "string \<times> string \<times> real"

definition NUM_CLASSES :: nat where
  "NUM_CLASSES = 1000"

section \<open>NumPy and Python list primitives\<close>

text \<open>
  \<open>pred.argsort()\<close>: the indices ordered by ascending score.  NumPy's default
  quicksort leaves the order of equal scores unspecified; the model breaks
  ties by index (a stable sort).
\<close>

definition argsort :: "real list \<Rightarrow> nat list" where
  "argsort pred = sort_key (\<lambda>i. pred ! i) [0..<length pred]"

text \<open>
  The contract of NumPy's \<open>argsort\<close> whatever its sorting algorithm: a
  permutation of the indices (its sorted copy is \<open>0, ..., n-1\<close>) along
  which the scores ascend.  Equal scores may come in any order.
\<close>

definition is_argsort :: "real list \<Rightarrow> nat list \<Rightarrow> bool" where
  "is_argsort pred idx \<longleftrightarrow> sort idx = [0..<length pred] \<and> sorted (map ((!) pred) idx)"

text \<open>The slice \<open>a[-k:]\<close>; note that \<open>a[-0:]\<close> is the whole list.\<close>

definition py_tail :: "nat \<Rightarrow> 'a list \<Rightarrow> 'a list" where
  "py_tail k xs = (if k = 0 then xs else drop (length xs - k) xs)"

text \<open>
  \<open>xs.sort(key=f, reverse=True)\<close>: CPython reverses the list, sorts it stably
  and reverses it again.
\<close>

definition sort_desc_key :: "('a \<Rightarrow> 'b::linorder) \<Rightarrow> 'a list \<Rightarrow> 'a list" where
  "sort_desc_key f xs = rev (sort_key f (rev xs))"

section \<open>decode_predictions\<close>

definition top_indices :: "nat \<Rightarrow> real list \<Rightarrow> nat list" where
  "top_indices topn pred = rev (py_tail topn (argsort pred))"

definition score :: "prediction \<Rightarrow> real" where
  "score r = snd (snd r)"

definition decode_row :: "(nat \<Rightarrow> string \<times> string) \<Rightarrow> nat \<Rightarrow> real list \<Rightarrow> prediction list" where
  "decode_row class_index topn pred =
     sort_desc_key score
       (map (\<lambda>i. (fst (class_index i), snd (class_index i), pred ! i)) (top_indices topn pred))"

definition decode_predictions ::
  "(nat \<Rightarrow> string \<times> string) \<Rightarrow> ndarray \<Rightarrow> nat \<Rightarrow> prediction list list result" where
  "decode_predictions class_index preds topn =
     (if length (shape preds) \<noteq> 2 \<or> shape preds ! 1 \<noteq> NUM_CLASSES
      then Inl (ValueError ''decode_predictions expects a batch of predictions'')
      else Inr (map (decode_row class_index topn) (chunks NUM_CLASSES (data preds))))"

section \<open>Abstract specification of a top-k selection\<close>

text \<open>
  \<open>idx\<close> selects the \<open>k\<close> best scores of \<open>pred\<close>: distinct valid indices,
  \<open>min k n\<close> of them, in descending order of score, and no index left out
  scores higher than one selected.
\<close>

definition is_top_k :: "real list \<Rightarrow> nat \<Rightarrow> nat list \<Rightarrow> bool" where
  "is_top_k pred k idx \<longleftrightarrow>
     distinct idx \<and> length idx = min k (length pred) \<and>
     (\<forall>i \<in> set idx. i < length pred) \<and>
     sorted_desc (map ((!) pred) idx) \<and>
     (\<forall>i \<in> set idx. \<forall>j < length pred. j \<notin> set idx \<longrightarrow> pred ! j \<le> pred ! i)"

section \<open>argsort and slicing\<close>

lemma is_argsort_perm:
  assumes "is_argsort pred idx"
  shows "set idx = {..<length pred}" and "distinct idx" and "length idx = length pred"
proof -
  have s: "sort idx = [0..<length pred]" using assms by (simp add: is_argsort_def)
  show "set idx = {..<length pred}" using arg_cong [OF s, of set] by auto
  show "distinct idx" using arg_cong [OF s, of distinct] by simp
  show "length idx = length pred" using arg_cong [OF s, of length] by simp
qed

lemma is_argsort_sorted: "is_argsort pred idx \<Longrightarrow> sorted (map ((!) pred) idx)"
  by (simp add: is_argsort_def)

lemma set_argsort [simp]: "set (argsort pred) = {..<length pred}"
  by (auto simp: argsort_def)

lemma distinct_argsort [simp]: "distinct (argsort pred)"
  by (simp add: argsort_def)

lemma length_argsort [simp]: "length (argsort pred) = length pred"
  by (simp add: argsort_def)

lemma sorted_argsort: "sorted (map ((!) pred) (argsort pred))"
  unfolding argsort_def by (rule sorted_sort_key)

lemma py_tail_pos: "0 < k \<Longrightarrow> py_tail k xs = drop (length xs - k) xs"
  by (simp add: py_tail_def)

lemma py_tail_suffix: "\<exists>m. py_tail k xs = drop m xs"
  by (auto simp: py_tail_def intro: exI [of _ 0])

lemma sort_desc_key_id: "sorted_desc (map f xs) \<Longrightarrow> sort_desc_key f xs = xs"
proof -
  assume "sorted_desc (map f xs)"
  then have "sorted (map f (rev xs))"
    using sorted_desc_rev_iff [of "map f (rev xs)"] by (simp add: rev_map)
  then show ?thesis by (simp add: sort_desc_key_def sort_key_id_if_sorted)
qed

lemma sorted_desc_sort_desc_key: "sorted_desc (map f (sort_desc_key f xs))"
  by (simp add: sort_desc_key_def sorted_desc_map_rev_iff)

lemma argsort_is_argsort: "is_argsort pred (argsort pred)"
proof -
  have "mset [0..<length pred] = mset (argsort pred)" by (simp add: argsort_def)
  then have "sort (argsort pred) = [0..<length pred]" by (rule properties_for_sort) simp
  then show ?thesis by (simp add: is_argsort_def sorted_argsort)
qed

section \<open>The last k entries of an admissible order are a top-k selection\<close>

text \<open>
  These lemmas hold for every order \<open>argsort\<close> may return, so they cover
  NumPy's unstable sort as well as the stable sort of the model.
\<close>

lemma py_tail_sorted:
  "is_argsort pred idx \<Longrightarrow> sorted_desc (map ((!) pred) (rev (py_tail k idx)))"
proof -
  assume a: "is_argsort pred idx"
  obtain m where m: "py_tail k idx = drop m idx"
    using py_tail_suffix by blast
  have "sorted (map ((!) pred) (drop m idx))"
    using is_argsort_sorted [OF a] by (simp add: drop_map [symmetric] sorted_wrt_drop)
  then show ?thesis by (simp add: m sorted_desc_map_rev_iff)
qed

lemma py_tail_basic:
  assumes "is_argsort pred idx" and "0 < k"
  shows "distinct (rev (py_tail k idx)) \<and> length (rev (py_tail k idx)) = min k (length pred) \<and>
     set (rev (py_tail k idx)) \<subseteq> {..<length pred}"
  using set_drop_subset [of "length pred - k" idx] is_argsort_perm [OF assms(1)] assms(2)
  by (auto simp: py_tail_pos)

lemma py_tail_best:
  assumes "is_argsort pred idx" and "0 < k" and "i \<in> set (py_tail k idx)"
    and "j < length pred" and "j \<notin> set (py_tail k idx)"
  shows "pred ! j \<le> pred ! i"
proof -
  let ?m = "length idx - k"
  have ti: "set (py_tail k idx) = set (drop ?m idx)"
    using assms(2) by (simp add: py_tail_pos)
  have "set idx = set (take ?m idx) \<union> set (drop ?m idx)"
    by (simp only: set_append [symmetric] append_take_drop_id)
  then have j: "j \<in> set (take ?m idx)"
    using assms(4,5) ti is_argsort_perm(1) [OF assms(1)] by auto
  have "sorted (map ((!) pred) (take ?m idx) @ map ((!) pred) (drop ?m idx))"
    using is_argsort_sorted [OF assms(1)] by (simp add: map_append [symmetric] del: map_append)
  then show ?thesis using assms(3) ti j by (auto simp: sorted_append)
qed

lemma py_tail_top_k:
  "is_argsort pred idx \<Longrightarrow> 0 < k \<Longrightarrow> is_top_k pred k (rev (py_tail k idx))"
  using py_tail_basic [of pred idx k] py_tail_sorted [of pred idx k] py_tail_best [of pred idx k]
  by (auto simp: is_top_k_def)

text \<open>
  Two admissible orders list the same scores: both score lists are sorted
  and hold the same multiset, so they are equal.
\<close>

lemma is_argsort_scores:
  assumes "is_argsort pred idx" and "is_argsort pred idx'"
  shows "map ((!) pred) idx = map ((!) pred) idx'"
proof -
  have "mset (sort idx) = mset (sort idx')"
    using assms by (simp add: is_argsort_def)
  then have "mset idx = mset idx'" by simp
  then have "mset (map ((!) pred) idx) = mset (map ((!) pred) idx')" by simp
  then show ?thesis
    using is_argsort_sorted [OF assms(1)] is_argsort_sorted [OF assms(2)]
    by (metis properties_for_sort)
qed

lemma py_tail_map: "map f (py_tail k xs) = py_tail k (map f xs)"
  by (simp add: py_tail_def drop_map)

text \<open>The scores along \<open>argsort\<close> are the sorted scores.\<close>

lemma argsort_scores: "map ((!) pred) (argsort pred) = sort pred"
proof -
  have "mset (map ((!) pred) (argsort pred)) = mset (map ((!) pred) [0..<length pred])"
    by (simp add: argsort_def)
  also have "map ((!) pred) [0..<length pred] = pred" by (rule map_nth)
  finally have "mset (map ((!) pred) (argsort pred)) = mset pred" .
  then show ?thesis using sorted_argsort [of pred] by (metis properties_for_sort)
qed

lemma rev_py_tail: "0 < k \<Longrightarrow> rev (py_tail k xs) = take k (rev xs)"
  by (cases "k \<le> length xs") (simp_all add: py_tail_def rev_drop)

section \<open>Properties of decode_predictions\<close>

lemma top_indices_sorted: "sorted_desc (map ((!) pred) (top_indices topn pred))"
  unfolding top_indices_def by (rule py_tail_sorted [OF argsort_is_argsort])

lemma top_indices_top_k: "0 < k \<Longrightarrow> is_top_k pred k (top_indices k pred)"
  unfolding top_indices_def by (rule py_tail_top_k [OF argsort_is_argsort])

text \<open>
  The final \<open>result.sort(key=..., reverse=True)\<close> never changes the order,
  since the indices already come in descending order of score.
\<close>

lemma decode_row_conv:
  "decode_row class_index topn pred =
     map (\<lambda>i. (fst (class_index i), snd (class_index i), pred ! i)) (top_indices topn pred)"
proof -
  let ?mk = "\<lambda>i. (fst (class_index i), snd (class_index i), pred ! i)"
  have e: "map score (map ?mk (top_indices topn pred)) = map ((!) pred) (top_indices topn pred)"
    by (simp add: score_def)
  have "sorted_desc (map score (map ?mk (top_indices topn pred)))"
    unfolding e by (rule top_indices_sorted)
  then show ?thesis unfolding decode_row_def by (rule sort_desc_key_id)
qed

lemma decode_row_scores: "map score (decode_row class_index k pred) = rev (py_tail k (sort pred))"
  by (simp add: decode_row_conv top_indices_def score_def comp_def rev_map [symmetric] py_tail_map
      argsort_scores)

lemma decode_row_set:
  "r \<in> set (decode_row class_index topn pred) \<Longrightarrow>
     \<exists>i < length pred. r = (fst (class_index i), snd (class_index i), pred ! i)"
proof -
  assume "r \<in> set (decode_row class_index topn pred)"
  then obtain i where i: "i \<in> set (py_tail topn (argsort pred))"
    and r: "r = (fst (class_index i), snd (class_index i), pred ! i)"
    by (auto simp: decode_row_conv top_indices_def)
  obtain m where "py_tail topn (argsort pred) = drop m (argsort pred)"
    using py_tail_suffix by blast
  with i have "i < length pred" using in_set_dropD by fastforce
  with r show ?thesis by blast
qed

lemma decode_row_sorted: "sorted_desc (map score (decode_row class_index topn pred))"
  by (simp add: decode_row_def sorted_desc_sort_desc_key)

lemma decode_row_length:
  "0 < topn \<Longrightarrow> length (decode_row class_index topn pred) = min topn (length pred)"
  using py_tail_basic [OF argsort_is_argsort, of topn pred]
  by (simp add: decode_row_conv top_indices_def)

lemma decode_row_range:
  assumes "\<forall>v \<in> set pred. 0 \<le> v \<and> v \<le> 1"
    and "r \<in> set (decode_row class_index topn pred)"
  shows "0 \<le> score r \<and> score r \<le> 1"
proof -
  obtain i where "i < length pred" and "r = (fst (class_index i), snd (class_index i), pred ! i)"
    using decode_row_set [OF assms(2)] by blast
  then show ?thesis using assms(1) by (auto simp: score_def)
qed

lemma chunks_single: "length xs = c \<Longrightarrow> 0 < c \<Longrightarrow> chunks c xs = [xs]"
  by (auto simp: chunks_not_Nil)

lemma decode_predictions_single:
  "wf_array preds \<Longrightarrow> shape preds = [1, NUM_CLASSES] \<Longrightarrow>
     decode_predictions class_index preds topn = Inr [decode_row class_index topn (data preds)]"
  by (simp add: decode_predictions_def wf_array_def NUM_CLASSES_def chunks_single)

lemma length_chunks: "0 < c \<Longrightarrow> c dvd length xs \<Longrightarrow> length (chunks c xs) = length xs div c"
proof (induction c xs rule: chunks.induct)
  case (1 c xs)
  show ?case
  proof (cases "xs = []")
    case False
    then have "c \<le> length xs" using "1.prems" by (auto dest: dvd_imp_le)
    moreover have "c dvd length (drop c xs)" using "1.prems" by (simp add: dvd_diff_nat)
    ultimately show ?thesis
      using "1.IH" False "1.prems" by (simp add: chunks_not_Nil le_div_geq)
  qed simp
qed

text \<open>
  C7. Refinement: with \<open>top > 0\<close>, a decoded row is the labelled list of a
  top-k selection of its scores (\<open>is_top_k\<close>), in that selection's order;
  in particular the final re-sort by score leaves the list as it is.
\<close>

theorem decode_row_top_k:
  "0 < topn \<Longrightarrow> \<exists>idx. is_top_k pred topn idx \<and>
     decode_row class_index topn pred =
       map (\<lambda>i. (fst (class_index i), snd (class_index i), pred ! i)) idx"
  using top_indices_top_k [of topn pred] decode_row_conv [of class_index topn pred] by blast

theorem decode_row_top_k_witness:
  "0 < (2 :: nat) \<and> (\<exists>idx. is_top_k [0.1, 0.5, 0.2] 2 idx \<and>
     decode_row (\<lambda>i. (''n'', ''c'')) 2 [0.1, 0.5, 0.2] =
       map (\<lambda>i. (fst ((\<lambda>i. (''n'', ''c'')) i), snd ((\<lambda>i. (''n'', ''c'')) i), [0.1, 0.5, 0.2] ! i)) idx)"
  using decode_row_top_k [of 2 "[0.1, 0.5, 0.2]" "\<lambda>i. (''n'', ''c'')"] by simp

text \<open>
  C18. Shape of the result: on a well-formed \<open>(N, 1000)\<close> score array and
  \<open>top > 0\<close>, \<open>decode_predictions\<close> returns one list per row of the batch, each
  of \<open>min top 1000\<close> predictions sorted by descending score.
\<close>

theorem decode_predictions_shape:
  assumes "wf_array preds" and "shape preds = [n, NUM_CLASSES]" and "0 < topn"
  shows "\<exists>rows. decode_predictions class_index preds topn = Inr rows \<and> length rows = n \<and>
     (\<forall>row \<in> set rows. length row = min topn NUM_CLASSES \<and> sorted_desc (map score row))"
proof -
  have len: "length (data preds) = n * NUM_CLASSES"
    using assms(1,2) by (simp add: wf_array_def)
  have c: "0 < NUM_CLASSES" and d: "NUM_CLASSES dvd length (data preds)"
    using len by (simp_all add: NUM_CLASSES_def)
  let ?rows = "map (decode_row class_index topn) (chunks NUM_CLASSES (data preds))"
  have "decode_predictions class_index preds topn = Inr ?rows"
    using assms(2) by (simp add: decode_predictions_def)
  moreover have "length ?rows = n"
    using length_chunks [OF c d] len c by simp
  moreover have "\<forall>row \<in> set ?rows. length row = min topn NUM_CLASSES \<and> sorted_desc (map score row)"
    using chunks_length [OF d] decode_row_length [OF assms(3)] decode_row_sorted by auto
  ultimately show ?thesis by blast
qed

theorem decode_predictions_shape_witness:
  "\<exists>rows. decode_predictions (\<lambda>i. (''n'', ''c''))
       \<lparr>shape = [2, 1000], data = replicate 2000 (1 / 1000)\<rparr> 5 = Inr rows \<and> length rows = 2 \<and>
     (\<forall>row \<in> set rows. length row = min 5 NUM_CLASSES \<and> sorted_desc (map score row))"
  by (rule decode_predictions_shape) (simp_all add: wf_array_def NUM_CLASSES_def)

text \<open>
  C19. Ties do not matter: whatever order of equal scores NumPy's unstable
  \<open>argsort\<close> returns, the confidences shown are those of the model's row, in
  the same order.
\<close>

theorem decode_row_tie_independent:
  "is_argsort pred idx \<Longrightarrow>
     map score (decode_row class_index k pred) = map ((!) pred) (rev (py_tail k idx))"
proof -
  assume a: "is_argsort pred idx"
  have "map score (decode_row class_index k pred) = rev (py_tail k (map ((!) pred) (argsort pred)))"
    by (simp add: decode_row_conv top_indices_def score_def comp_def rev_map [symmetric] py_tail_map)
  also have "\<dots> = rev (py_tail k (map ((!) pred) idx))"
    by (simp only: is_argsort_scores [OF argsort_is_argsort a])
  finally show ?thesis by (simp add: rev_map [symmetric] py_tail_map)
qed

theorem decode_row_tie_independent_witness:
  "is_argsort [0.5, 0.2, 0.5] [1, 2, 0] \<and>
   map score (decode_row (\<lambda>i. (''n'', ''c'')) 2 [0.5, 0.2, 0.5]) =
     map ((!) [0.5, 0.2, 0.5]) (rev (py_tail 2 [1, 2, 0]))"
proof -
  have a: "is_argsort [0.5, 0.2, 0.5] [1, 2, 0]"
    by (simp add: is_argsort_def)
  show ?thesis using a decode_row_tie_independent [OF a] by simp
qed

text \<open>
  C20. Refinement for every admissible order: whichever order \<open>argsort\<close>
  returns (NumPy's sort is not stable), its last \<open>top\<close> entries reversed are
  a top-k selection, and the final sort of \<open>decode_predictions\<close> by score,
  descending, leaves the labelled list as it is.
\<close>

theorem admissible_order_top_k:
  assumes "is_argsort pred idx" and "0 < k"
  shows "is_top_k pred k (rev (py_tail k idx)) \<and>
    sort_desc_key score
      (map (\<lambda>i. (fst (class_index i), snd (class_index i), pred ! i)) (rev (py_tail k idx))) =
    map (\<lambda>i. (fst (class_index i), snd (class_index i), pred ! i)) (rev (py_tail k idx))"
proof
  show "is_top_k pred k (rev (py_tail k idx))" by (rule py_tail_top_k [OF assms])
  have "sorted_desc (map score
          (map (\<lambda>i. (fst (class_index i), snd (class_index i), pred ! i)) (rev (py_tail k idx))))"
    using py_tail_sorted [OF assms(1), of k] by (simp add: score_def comp_def)
  then show "sort_desc_key score
      (map (\<lambda>i. (fst (class_index i), snd (class_index i), pred ! i)) (rev (py_tail k idx))) =
    map (\<lambda>i. (fst (class_index i), snd (class_index i), pred ! i)) (rev (py_tail k idx))"
    by (rule sort_desc_key_id)
qed

theorem admissible_order_top_k_witness:
  "is_argsort [0.5, 0.2, 0.5] [1, 2, 0] \<and> is_top_k [0.5, 0.2, 0.5] 2 [0, 2]"
proof -
  have a: "is_argsort [0.5, 0.2, 0.5] [1, 2, 0]"
    by (simp add: is_argsort_def)
  have "rev (py_tail 2 [1, 2, 0 :: nat]) = [0, 2]" by (simp add: py_tail_def)
  then show ?thesis
    using a admissible_order_top_k [OF a, of 2 "\<lambda>i. (''n'', ''c'')"] by simp
qed

text \<open>
  The confidences of distinct indices add up to at most the whole row, when
  no score is negative.
\<close>

lemma sum_list_distinct_nth_le:
  assumes "distinct idx" and "set idx \<subseteq> {..<length pred}" and "\<forall>v \<in> set pred. 0 \<le> (v :: real)"
  shows "sum_list (map ((!) pred) idx) \<le> sum_list pred"
proof -
  have "sum_list (map ((!) pred) idx) = sum ((!) pred) (set idx)"
    using assms(1) by (simp add: sum_list_distinct_conv_sum_set)
  also have "\<dots> \<le> sum ((!) pred) {..<length pred}"
    using assms(2,3) by (intro sum_mono2) auto
  also have "\<dots> = sum_list pred"
    by (simp add: sum_list_sum_nth atLeast0LessThan)
  finally show ?thesis .
qed

text \<open>
  C26. Bounds on the page's confidences: the scores of a decoded row add up
  to at most the row's total, so for a model whose output is a probability
  distribution (softmax) the confidences shown sum to at most 1.
\<close>

theorem decode_row_mass:
  assumes "0 < topn" and "\<forall>v \<in> set pred. 0 \<le> v"
  shows "sum_list (map score (decode_row class_index topn pred)) \<le> sum_list pred"
proof -
  have b: "distinct (top_indices topn pred) \<and> set (top_indices topn pred) \<subseteq> {..<length pred}"
    using py_tail_basic [OF argsort_is_argsort assms(1), of pred] by (simp add: top_indices_def)
  have "map score (decode_row class_index topn pred) = map ((!) pred) (top_indices topn pred)"
    by (simp add: decode_row_conv score_def comp_def)
  then show ?thesis using sum_list_distinct_nth_le [of "top_indices topn pred" pred] b assms(2) by simp
qed

theorem decode_row_mass_witness:
  "0 < (2 :: nat) \<and> 0 \<le> (0.1 :: real) \<and> 0 \<le> (0.5 :: real) \<and> 0 \<le> (0.4 :: real) \<and>
   sum_list (map score (decode_row (\<lambda>i. (''n'', ''c'')) 2 [0.1, 0.5, 0.4])) \<le> sum_list [0.1, 0.5, 0.4]"
  using decode_row_mass [of 2 "[0.1, 0.5, 0.4]" "\<lambda>i. (''n'', ''c'')"] by simp

text \<open>
  C27. Equivalence with a reference definition: for \<open>top > 0\<close>, the
  confidences of a decoded row are the first \<open>top\<close> of all scores sorted in
  descending order, whatever the labels.
\<close>

theorem decode_row_scores_reference:
  "0 < k \<Longrightarrow> map score (decode_row class_index k pred) = take k (rev (sort pred))"
  by (simp add: decode_row_scores rev_py_tail)

theorem decode_row_scores_reference_witness:
  "0 < (2 :: nat) \<and>
   map score (decode_row (\<lambda>i. (''n'', ''c'')) 2 [0.1, 0.5, 0.2]) = take 2 (rev (sort [0.1, 0.5, 0.2 :: real]))"
  using decode_row_scores_reference [of 2 "\<lambda>i. (''n'', ''c'')" "[0.1, 0.5, 0.2]"] by simp

text \<open>
  C28. Bounds: the \<open>top\<close> classes shown carry at least their share of the
  row's mass: \<open>top * sum(row) \<le> len(row) * sum(shown)\<close>; for a softmax
  output the five confidences of the page add up to at least 5 / 1000.
\<close>

theorem decode_row_mean:
  assumes "0 < k" and "k \<le> length pred"
  shows "real k * sum_list pred \<le> real (length pred) * sum_list (map score (decode_row class_index k pred))"
proof -
  have s: "sorted_desc (rev (sort pred))" by (simp add: sorted_desc_rev_iff)
  have "real k * sum_list (rev (sort pred)) \<le>
          real (length (rev (sort pred))) * sum_list (take k (rev (sort pred)))"
    using sorted_desc_take_mean [OF s] assms(2) by simp
  moreover have "sum_list (rev (sort pred)) = sum_list pred"
    by (metis mset_rev mset_sort sum_mset_sum_list)
  ultimately show ?thesis using assms(1) by (simp add: decode_row_scores rev_py_tail)
qed

theorem decode_row_mean_witness:
  "0 < (1 :: nat) \<and> 1 \<le> length [0.2, 0.8 :: real] \<and>
   real 1 * sum_list [0.2, 0.8 :: real] \<le>
     real (length [0.2, 0.8 :: real]) * sum_list (map score (decode_row (\<lambda>i. (''n'', ''c'')) 1 [0.2, 0.8]))"
  using decode_row_mean [of 1 "[0.2, 0.8]" "\<lambda>i. (''n'', ''c'')"] by simp

end
