(* ===== verification/Views.thy ===== *)
theory Views
  imports Forms Decode
begin

text \<open>
  The prediction handler \<open>predict(request)\<close> of views.py (lines 25--89) and
  the steps it composes: the image preprocessing of lines 51--61
  (\<open>prepare_image\<close>), model loading, inference and decoding of lines 63--75
  (\<open>classify\<close>), and the two-way dispatch on the HTTP method.  Everything the
  view reads from outside is one record \<open>environment\<close>: Django's
  \<open>settings.BASE_DIR\<close>, the saved models on disk, the model's \<open>predict\<close>,
  Pillow's decoder and extensions, and Keras' ImageNet class table.
\<close>

section \<open>Requests, contexts, responses, environment\<close>

record request =
  req_method :: string
  POST :: "(string, string) multi_value_dict"
  FILES :: "(string, uploaded_file) multi_value_dict"

text \<open>
  The template context \<open>{'form': ..., 'prediction': ..., 'img_data': ...}\<close>:
  \<open>None\<close> for a key the dictionary does not hold; \<open>img_data\<close> holds the
  value of \<open>request.POST.get('img_data')\<close>, itself possibly \<open>None\<close>.
\<close>

record template_context =
  ctx_form :: image_upload_form
  ctx_prediction :: "prediction list option"
  ctx_img_data :: "string option option"

definition form_only :: "image_upload_form \<Rightarrow> template_context" where
  "form_only form = \<lparr>ctx_form = form, ctx_prediction = None, ctx_img_data = None\<rparr>"

text \<open>\<open>render(request, template, context)\<close>: an HTTP 200 response.\<close>

datatype response = Render string template_context

record 'm environment =
  env_pil_open :: "bytes \<Rightarrow> pil_image option"
  env_image_extensions :: "string list"
  BASE_DIR :: string
  env_model_files :: "string \<Rightarrow> 'm option"
  env_model_predict :: "'m \<Rightarrow> ndarray \<Rightarrow> ndarray result"
  env_class_index :: "nat \<Rightarrow> string \<times> string"

section \<open>Library calls of the handler\<close>

text \<open>
  \<open>os.path.join\<close> (POSIX): an absolute component restarts the path, otherwise
  components are joined with one separator.
\<close>

fun path_join :: "string \<Rightarrow> string list \<Rightarrow> string" where
  "path_join a [] = a"
| "path_join a (b # bs) =
     path_join (if take 1 b = ''/'' then b
                else if a = [] \<or> last a = CHR ''/'' then a @ b
                else a @ ''/'' @ b) bs"

text \<open>\<open>load_model(path)\<close>: the saved model at \<open>path\<close>, or \<open>OSError\<close>.\<close>

definition load_model :: "'m environment \<Rightarrow> string \<Rightarrow> 'm result" where
  "load_model env path =
     (case env_model_files env path of
        None \<Rightarrow> Inl (OSError ''No file or directory found'')
      | Some model \<Rightarrow> Inr model)"

text \<open>\<open>xs[0]\<close> on a Python list.\<close>

definition py_first :: "'a list \<Rightarrow> 'a result" where
  "py_first xs = (case xs of [] \<Rightarrow> Inl IndexError | x # _ \<Rightarrow> Inr x)"

section \<open>The handler\<close>

text \<open>Lines 51--61: from the uploaded bytes to the model's input array.\<close>

definition prepare_image :: "'m environment \<Rightarrow> bytes \<Rightarrow> ndarray result" where
  "prepare_image env img_file =
     bindE (load_img (env_pil_open env) img_file (224, 224)) (\<lambda>img.
     (let img_array = img_to_array img in
      bindE (reshape img_array [1, 224, 224, 3]) (\<lambda>img_array.
      preprocess_input img_array)))"

definition model_path :: "'m environment \<Rightarrow> string" where
  "model_path env = path_join (BASE_DIR env) [''prediction'', ''models'', ''vgg16.h5'']"

text \<open>Lines 51--75: the top-5 predictions for the uploaded bytes.\<close>

definition classify :: "'m environment \<Rightarrow> bytes \<Rightarrow> prediction list result" where
  "classify env img_file =
     bindE (prepare_image env img_file) (\<lambda>img_array.
     bindE (load_model env (model_path env)) (\<lambda>model.
     bindE (env_model_predict env model img_array) (\<lambda>result.
     bindE (decode_predictions (env_class_index env) result 5) (\<lambda>preds.
     py_first preds))))"

text \<open>
  \<open>predict(request)\<close>: \<open>Inr None\<close> is the function falling off its end
  (a method that is neither GET nor POST), \<open>Inl\<close> an exception it raises.
\<close>

definition predict :: "'m environment \<Rightarrow> request \<Rightarrow> response option result" where
  "predict env request =
     (if req_method request = ''GET'' then
        (let form = ImageUploadForm in Inr (Some (Render ''home.html'' (form_only form))))
      else if req_method request = ''POST'' then
        (let form = ImageUploadForm_bound (POST request) (FILES request) in
         if is_valid (env_pil_open env) (env_image_extensions env) form then
           (case cleaned_image (env_pil_open env) (env_image_extensions env) form of
              None \<Rightarrow> Inl (KeyError ''image'')
            | Some img_file \<Rightarrow>
                bindE (classify env (file_content img_file)) (\<lambda>prediction.
                  (let img_data = mvd_get (POST request) ''img_data'' in
                   Inr (Some (Render ''home.html''
                     \<lparr>ctx_form = form, ctx_prediction = Some prediction,
                      ctx_img_data = Some img_data\<rparr>)))))
         else
           (let form = ImageUploadForm in Inr (Some (Render ''home.html'' (form_only form)))))
      else Inr None)"

text \<open>
  A model wrapper that rejects every input other than a well-formed
  \<open>(1, 224, 224, 3)\<close> array of preprocessed values; used to state which
  inputs the handler can give the model.
\<close>

definition guard_model_input ::
  "('m \<Rightarrow> ndarray \<Rightarrow> ndarray result) \<Rightarrow> 'm \<Rightarrow> ndarray \<Rightarrow> ndarray result" where
  "guard_model_input f m x =
     (if wf_array x \<and> shape x = [1, 224, 224, 3] \<and>
         (\<forall>v \<in> set (data x). -123.69 \<le> v \<and> v \<le> 151.07)
      then f m x else Inl (ValueError ''unexpected model input''))"

declare prepare_image_def [pipeline_simps] classify_def [pipeline_simps]
  load_model_def [pipeline_simps] py_first_def [pipeline_simps]

section \<open>Preprocessing\<close>

text \<open>
  A decodable upload always reaches the model: \<open>load_img\<close> yields a
  224 x 224 RGB image, so the reshape to \<open>(1, 224, 224, 3)\<close> cannot raise,
  and \<open>preprocess_input\<close> maps the 8-bit values into
  \<open>[0 - 123.68, 255 - 103.939]\<close>.
\<close>

lemma prepare_image_ok:
  assumes "image_open (env_pil_open env) b = Inr img" and "wf_image img"
    and "0 < im_width img" and "0 < im_height img"
  shows "\<exists>x. prepare_image env b = Inr x \<and> wf_array x \<and> shape x = [1, 224, 224, 3] \<and>
           (\<forall>v \<in> set (data x). -123.68 \<le> v \<and> v \<le> 151.061)"
proof -
  obtain im where im: "load_img (env_pil_open env) b (224, 224) = Inr im" and wf: "wf_image im"
    and rgb: "im_mode im = Mode_RGB" and w: "im_width im = 224" and h: "im_height im = 224"
    using load_img_Some [of "env_pil_open env" b img 224 224] assms by blast
  let ?a = "img_to_array im"
  let ?a' = "?a\<lparr>shape := [1, 224, 224, 3]\<rparr>"
  have sa: "shape ?a = [224, 224, 3]" using rgb w h by (simp add: img_to_array_def)
  have wa: "wf_array ?a" using wf by (rule img_to_array_wf)
  have r: "reshape ?a [1, 224, 224, 3] = Inr ?a'" using sa by (simp add: reshape_def)
  have wa': "wf_array ?a'" using reshape_wf [OF wa r] by simp
  have rng: "\<forall>v \<in> set (data ?a'). 0 \<le> v \<and> v \<le> 255" using img_to_array_range by simp
  obtain x where x: "preprocess_input ?a' = Inr x"
    and bnd: "\<forall>i < length (data x). 0 - vgg16_mean ! (i mod 3) \<le> data x ! i \<and>
                                    data x ! i \<le> 255 - vgg16_mean ! (i mod 3)"
    using preprocess_input_range [OF wa' _ _ rng] by auto
  have wx: "wf_array x \<and> shape x = [1, 224, 224, 3]" using preprocess_input_wf [OF wa' x] by simp
  have "-123.68 \<le> v \<and> v \<le> 151.061" if v: "v \<in> set (data x)" for v
  proof -
    obtain i where i: "i < length (data x)" and vi: "v = data x ! i"
      using v by (auto simp: in_set_conv_nth)
    have "103.939 \<le> vgg16_mean ! (i mod 3) \<and> vgg16_mean ! (i mod 3) \<le> 123.68"
      by (rule vgg16_mean_bounds) simp
    with bnd i vi show ?thesis by fastforce
  qed
  moreover have "prepare_image env b = Inr x"
    using im r x by (simp add: prepare_image_def)
  ultimately show ?thesis using wx by blast
qed

section \<open>Classification\<close>

lemma prepare_image_decodes:
  "prepare_image env b = Inr x \<Longrightarrow> \<exists>img. image_open (env_pil_open env) b = Inr img"
  by (auto simp: prepare_image_def load_img_def split: sum.splits)

text \<open>What the view assumes of Pillow's decoders holds of every image \<open>Image.open\<close> returns.\<close>

lemma image_open_decoded:
  assumes "\<forall>b img. env_pil_open env b = Some img \<longrightarrow>
             wf_image img \<and> 0 < im_width img \<and> 0 < im_height img"
    and "image_open (env_pil_open env) b = Inr img"
  shows "wf_image img \<and> 0 < im_width img \<and> 0 < im_height img"
  using assms by (auto simp: image_open_Inr)

lemma classify_ok:
  assumes "image_open (env_pil_open env) b = Inr img" and "wf_image img"
    and "0 < im_width img" and "0 < im_height img"
    and mf: "env_model_files env (model_path env) = Some m"
    and mp: "\<forall>x. wf_array x \<and> shape x = [1, 224, 224, 3] \<longrightarrow>
               (\<exists>y. env_model_predict env m x = Inr y \<and> wf_array y \<and>
                    shape y = [1, NUM_CLASSES] \<and> (\<forall>v \<in> set (data y). 0 \<le> v \<and> v \<le> 1))"
  shows "\<exists>preds. classify env b = Inr preds \<and> length preds = 5 \<and>
           sorted_desc (map score preds) \<and> (\<forall>r \<in> set preds. 0 \<le> score r \<and> score r \<le> 1)"
proof -
  obtain x where x: "prepare_image env b = Inr x" and wx: "wf_array x"
    and sx: "shape x = [1, 224, 224, 3]"
    using prepare_image_ok [OF assms(1-4)] by blast
  obtain y where y: "env_model_predict env m x = Inr y" and wy: "wf_array y"
    and sy: "shape y = [1, NUM_CLASSES]" and ry: "\<forall>v \<in> set (data y). 0 \<le> v \<and> v \<le> 1"
    using mp wx sx by blast
  let ?preds = "decode_row (env_class_index env) 5 (data y)"
  have len: "length (data y) = 1000" using wy sy by (simp add: wf_array_def NUM_CLASSES_def)
  have "classify env b = Inr ?preds"
    using x y mf decode_predictions_single [OF wy sy]
    by (simp add: pipeline_simps)
  moreover have "length ?preds = 5" using decode_row_length [of 5] len by simp
  moreover have "sorted_desc (map score ?preds)" by (rule decode_row_sorted)
  moreover have "\<forall>r \<in> set ?preds. 0 \<le> score r \<and> score r \<le> 1"
    using decode_row_range [OF ry] by blast
  ultimately show ?thesis by blast
qed

lemma predict_valid_unfold:
  assumes "req_method request = ''POST''"
    and "cleaned_image (env_pil_open env) (env_image_extensions env)
           (ImageUploadForm_bound (POST request) (FILES request)) = Some f"
    and "is_valid (env_pil_open env) (env_image_extensions env)
           (ImageUploadForm_bound (POST request) (FILES request))"
  shows "predict env request =
    bindE (classify env (file_content f)) (\<lambda>prediction.
      Inr (Some (Render ''home.html''
        \<lparr>ctx_form = ImageUploadForm_bound (POST request) (FILES request),
         ctx_prediction = Some prediction,
         ctx_img_data = Some (mvd_get (POST request) ''img_data'')\<rparr>)))"
  using assms by (simp add: predict_def)

section \<open>Behaviour of the handler\<close>

text \<open>
  C1. A POST whose form is valid is answered with the page that shows the bound
  form, exactly five predictions in descending order of confidence, each
  confidence in [0, 1], and the echoed \<open>img_data\<close> field, provided Pillow
  decodes to well-formed images, the model file exists and the model returns a
  \<open>(1, 1000)\<close> array of probabilities for every \<open>(1, 224, 224, 3)\<close> input.
\<close>

theorem predict_valid_post:
  assumes post: "req_method request = ''POST''"
    and valid: "is_valid (env_pil_open env) (env_image_extensions env)
                  (ImageUploadForm_bound (POST request) (FILES request))"
    and dec: "\<forall>b img. env_pil_open env b = Some img \<longrightarrow>
                wf_image img \<and> 0 < im_width img \<and> 0 < im_height img"
    and mf: "env_model_files env (model_path env) = Some m"
    and mp: "\<forall>x. wf_array x \<and> shape x = [1, 224, 224, 3] \<longrightarrow>
               (\<exists>y. env_model_predict env m x = Inr y \<and> wf_array y \<and>
                    shape y = [1, NUM_CLASSES] \<and> (\<forall>v \<in> set (data y). 0 \<le> v \<and> v \<le> 1))"
  shows "\<exists>preds. predict env request =
           Inr (Some (Render ''home.html''
             \<lparr>ctx_form = ImageUploadForm_bound (POST request) (FILES request),
              ctx_prediction = Some preds,
              ctx_img_data = Some (mvd_get (POST request) ''img_data'')\<rparr>)) \<and>
         length preds = 5 \<and> sorted_desc (map score preds) \<and>
         (\<forall>r \<in> set preds. 0 \<le> score r \<and> score r \<le> 1)"
proof -
  obtain f img where f: "cleaned_image (env_pil_open env) (env_image_extensions env)
      (ImageUploadForm_bound (POST request) (FILES request)) = Some f"
    and img: "image_open (env_pil_open env) (file_content f) = Inr img"
    using is_valid_cleaned_image [OF valid] by blast
  have "wf_image img \<and> 0 < im_width img \<and> 0 < im_height img" by (rule image_open_decoded [OF dec img])
  then obtain preds where c: "classify env (file_content f) = Inr preds" and
    props: "length preds = 5 \<and> sorted_desc (map score preds) \<and>
            (\<forall>r \<in> set preds. 0 \<le> score r \<and> score r \<le> 1)"
    using classify_ok [OF img _ _ _ mf mp] by blast
  show ?thesis using predict_valid_unfold [OF post f valid] c props by simp
qed

text \<open>C3. A GET request is answered with the empty, unbound upload form and no prediction.\<close>

theorem predict_get:
  "req_method request = ''GET'' \<Longrightarrow>
     predict env request = Inr (Some (Render ''home.html'' (form_only ImageUploadForm))) \<and>
     \<not> is_bound ImageUploadForm \<and> ctx_prediction (form_only ImageUploadForm) = None"
  by (simp add: predict_def form_only_def ImageUploadForm_def)

text \<open>
  C2. A POST whose form is not valid (no file, an empty or nameless file, a
  file Pillow cannot decode, an unsupported extension) is answered exactly as
  a GET: the submitted data is discarded.
\<close>

theorem predict_invalid_post:
  assumes "req_method request = ''POST''"
    and "\<not> is_valid (env_pil_open env) (env_image_extensions env)
            (ImageUploadForm_bound (POST request) (FILES request))"
  shows "predict env request = predict env (request\<lparr>req_method := ''GET''\<rparr>)"
  using assms by (simp add: predict_def)

text \<open>
  For any method other than GET and POST (HEAD, PUT, OPTIONS, ...) the view
  falls off its end and returns \<open>None\<close> instead of a response.
\<close>

lemma predict_other_method:
  "req_method request \<noteq> ''GET'' \<Longrightarrow> req_method request \<noteq> ''POST'' \<Longrightarrow> predict env request = Inr None"
  by (simp add: predict_def)

text \<open>
  C9. With the model file missing, a valid upload raises \<open>OSError\<close> from
  \<open>load_model\<close>: the error is not caught by the view.
\<close>

theorem predict_model_missing:
  assumes "req_method request = ''POST''"
    and valid: "is_valid (env_pil_open env) (env_image_extensions env)
                  (ImageUploadForm_bound (POST request) (FILES request))"
    and dec: "\<forall>b img. env_pil_open env b = Some img \<longrightarrow>
                wf_image img \<and> 0 < im_width img \<and> 0 < im_height img"
    and "env_model_files env (model_path env) = None"
  shows "predict env request = Inl (OSError ''No file or directory found'')"
proof -
  obtain f img where f: "cleaned_image (env_pil_open env) (env_image_extensions env)
      (ImageUploadForm_bound (POST request) (FILES request)) = Some f"
    and img: "image_open (env_pil_open env) (file_content f) = Inr img"
    using is_valid_cleaned_image [OF valid] by blast
  have "wf_image img \<and> 0 < im_width img \<and> 0 < im_height img" by (rule image_open_decoded [OF dec img])
  then obtain x where "prepare_image env (file_content f) = Inr x"
    using prepare_image_ok [OF img] by blast
  then have "classify env (file_content f) = Inl (OSError ''No file or directory found'')"
    using assms(4) by (simp add: pipeline_simps)
  then show ?thesis using predict_valid_unfold [OF assms(1) f valid] by simp
qed

text \<open>
  C11. The model is loaded from \<open>BASE_DIR/prediction/models/vgg16.h5\<close>
  (for a \<open>BASE_DIR\<close> that is not empty and has no trailing separator).
\<close>

theorem model_path_eq:
  "BASE_DIR env \<noteq> [] \<Longrightarrow> last (BASE_DIR env) \<noteq> CHR ''/'' \<Longrightarrow>
     model_path env = BASE_DIR env @ ''/prediction/models/vgg16.h5''"
  by (simp add: model_path_def)

lemma classify_guard:
  assumes dec: "\<forall>b img. env_pil_open env b = Some img \<longrightarrow>
                  wf_image img \<and> 0 < im_width img \<and> 0 < im_height img"
  shows "classify (env\<lparr>env_model_predict := guard_model_input (env_model_predict env)\<rparr>) b =
         classify env b"
proof (cases "prepare_image env b")
  case (Inl e)
  then show ?thesis by (simp add: classify_def prepare_image_def)
next
  case (Inr x)
  obtain img where img: "image_open (env_pil_open env) b = Inr img"
    using prepare_image_decodes [OF Inr] by blast
  have "wf_image img \<and> 0 < im_width img \<and> 0 < im_height img" by (rule image_open_decoded [OF dec img])
  then have "wf_array x \<and> shape x = [1, 224, 224, 3] \<and>
             (\<forall>v \<in> set (data x). -123.68 \<le> v \<and> v \<le> 151.061)"
    using prepare_image_ok [OF img] Inr by auto
  then have g: "guard_model_input (env_model_predict env) m x = env_model_predict env m x" for m
    by (fastforce simp add: guard_model_input_def)
  have p: "prepare_image (env\<lparr>env_model_predict := guard_model_input (env_model_predict env)\<rparr>) b
           = Inr x"
    using Inr by (simp add: prepare_image_def)
  show ?thesis using Inr p g by (simp add: classify_def load_model_def model_path_def)
qed

text \<open>
  C6. Safety of the model call: wrapping the model so that it rejects every
  input other than a well-formed \<open>(1, 224, 224, 3)\<close> array with values in
  \<open>[-123.69, 151.07]\<close> changes no response of the view, i.e. the view only
  ever hands the model such arrays.  The exact range of the caffe
  preprocessing is \<open>[-123.68, 151.061]\<close>; the guard leaves a margin of
  about 0.01 because the program computes in float32, where
  \<open>0 - 123.68\<close> rounds to -123.68000030517578 and \<open>255 - 103.939\<close> to
  151.06100463867188, and the rounding error of any value of magnitude
  below 256 is under \<open>10\<^sup>-\<^sup>4\<close>.
\<close>

theorem predict_model_input:
  assumes "\<forall>b img. env_pil_open env b = Some img \<longrightarrow>
             wf_image img \<and> 0 < im_width img \<and> 0 < im_height img"
  shows "predict (env\<lparr>env_model_predict := guard_model_input (env_model_predict env)\<rparr>) request =
         predict env request"
  by (simp add: predict_def Let_def classify_guard [OF assms] split: option.split)

section \<open>Responses of the handler\<close>

lemma classify_Inr:
  "classify env b = Inr preds \<Longrightarrow>
     \<exists>m img. env_model_files env (model_path env) = Some m \<and> image_open (env_pil_open env) b = Inr img"
  by (auto simp: classify_def load_model_def dest: prepare_image_decodes split: option.splits)

lemma predict_Some_cases:
  assumes "predict env request = Inr (Some r)"
  shows "r = Render ''home.html'' (form_only ImageUploadForm) \<or>
    (\<exists>f preds. is_valid (env_pil_open env) (env_image_extensions env)
                 (ImageUploadForm_bound (POST request) (FILES request)) \<and>
       cleaned_image (env_pil_open env) (env_image_extensions env)
         (ImageUploadForm_bound (POST request) (FILES request)) = Some f \<and>
       classify env (file_content f) = Inr preds \<and>
       r = Render ''home.html''
             \<lparr>ctx_form = ImageUploadForm_bound (POST request) (FILES request),
              ctx_prediction = Some preds,
              ctx_img_data = Some (mvd_get (POST request) ''img_data'')\<rparr>)"
  using assms by (auto simp: predict_def Let_def split: if_splits option.splits sum.splits)

text \<open>
  With a decoder of well-formed images and a present, working model, a GET
  or POST request is always answered with a page.
\<close>

lemma predict_answers:
  assumes dec: "\<forall>b img. env_pil_open env b = Some img \<longrightarrow>
                  wf_image img \<and> 0 < im_width img \<and> 0 < im_height img"
    and mf: "env_model_files env (model_path env) = Some m"
    and mp: "\<forall>x. wf_array x \<and> shape x = [1, 224, 224, 3] \<longrightarrow>
               (\<exists>y. env_model_predict env m x = Inr y \<and> wf_array y \<and>
                    shape y = [1, NUM_CLASSES] \<and> (\<forall>v \<in> set (data y). 0 \<le> v \<and> v \<le> 1))"
    and meth: "req_method request = ''GET'' \<or> req_method request = ''POST''"
  shows "\<exists>r. predict env request = Inr (Some r)"
proof (cases "req_method request = ''POST'' \<and>
              is_valid (env_pil_open env) (env_image_extensions env)
                (ImageUploadForm_bound (POST request) (FILES request))")
  case True
  then have post: "req_method request = ''POST''"
    and valid: "is_valid (env_pil_open env) (env_image_extensions env)
                  (ImageUploadForm_bound (POST request) (FILES request))" by simp_all
  obtain f img where f: "cleaned_image (env_pil_open env) (env_image_extensions env)
      (ImageUploadForm_bound (POST request) (FILES request)) = Some f"
    and img: "image_open (env_pil_open env) (file_content f) = Inr img"
    using is_valid_cleaned_image [OF valid] by blast
  have "wf_image img \<and> 0 < im_width img \<and> 0 < im_height img" by (rule image_open_decoded [OF dec img])
  then obtain preds where "classify env (file_content f) = Inr preds"
    using classify_ok [OF img _ _ _ mf mp] by blast
  then show ?thesis using predict_valid_unfold [OF post f valid] by simp
next
  case False
  then show ?thesis using meth by (auto simp: predict_def)
qed

text \<open>
  C24. Error path of Pillow's decompression-bomb check: a POST whose image
  declares more than \<open>2 * MAX_IMAGE_PIXELS\<close> pixels fails the form's
  validation (\<open>Image.open\<close> raises \<open>DecompressionBombError\<close> inside
  \<open>ImageField.to_python\<close>), and the view answers with the empty form; the
  model is never loaded.
\<close>

theorem predict_decompression_bomb:
  assumes post: "req_method request = ''POST''"
    and f: "mvd_get (FILES request) ''image'' = Some f"
    and img: "env_pil_open env (file_content f) = Some img"
    and big: "2 * MAX_IMAGE_PIXELS < im_width img * im_height img"
  shows "predict env request = Inr (Some (Render ''home.html'' (form_only ImageUploadForm)))"
proof -
  have "im_width img * im_height img \<le> image_pixels img"
    unfolding image_pixels_def by (intro mult_le_mono) simp_all
  then have "isl (image_open (env_pil_open env) (file_content f))"
    using img big by (simp add: image_open_def)
  then have "\<not> is_valid (env_pil_open env) (env_image_extensions env)
               (ImageUploadForm_bound (POST request) (FILES request))"
    using f by (auto simp: is_valid_iff form_clean_upload image_field_clean_Inr_iff
                           ImageUploadForm_bound_def)
  then show ?thesis using post by (simp add: predict_def)
qed

text \<open>
  C25. The form's checks cover \<open>load_img\<close>'s: the file of a valid form is
  one \<open>load_img\<close> opens without raising (neither
  \<open>UnidentifiedImageError\<close> nor \<open>DecompressionBombError\<close>), as a
  224 x 224 RGB image, when Pillow's decoders return well-formed images.
\<close>

theorem valid_upload_loads:
  assumes dec: "\<forall>b img. env_pil_open env b = Some img \<longrightarrow>
                  wf_image img \<and> 0 < im_width img \<and> 0 < im_height img"
    and valid: "is_valid (env_pil_open env) (env_image_extensions env) form"
    and f: "cleaned_image (env_pil_open env) (env_image_extensions env) form = Some f"
  shows "\<exists>im. load_img (env_pil_open env) (file_content f) (224, 224) = Inr im \<and>
           wf_image im \<and> im_mode im = Mode_RGB \<and> im_width im = 224 \<and> im_height im = 224"
proof -
  obtain f' img where f': "cleaned_image (env_pil_open env) (env_image_extensions env) form = Some f'"
    and img: "image_open (env_pil_open env) (file_content f') = Inr img"
    using is_valid_cleaned_image [OF valid] by blast
  have "f' = f" using f f' by simp
  moreover have "wf_image img \<and> 0 < im_width img \<and> 0 < im_height img"
    by (rule image_open_decoded [OF dec img])
  ultimately show ?thesis using load_img_Some [of "env_pil_open env" "file_content f" img 224 224] img
    by blast
qed

text \<open>
  C29. What the page shows is what the model said: whenever the view's
  classification succeeds, its five confidences are the five highest scores
  of the first row the model returned, in descending order.
\<close>

theorem classify_top5_scores:
  assumes "classify env b = Inr preds"
  shows "\<exists>m x y. env_model_files env (model_path env) = Some m \<and> prepare_image env b = Inr x \<and>
           env_model_predict env m x = Inr y \<and>
           map score preds = take 5 (rev (sort (take NUM_CLASSES (data y))))"
proof -
  obtain x m y rows where x: "prepare_image env b = Inr x"
    and m: "load_model env (model_path env) = Inr m"
    and y: "env_model_predict env m x = Inr y"
    and rows: "decode_predictions (env_class_index env) y 5 = Inr rows"
    and p: "py_first rows = Inr preds"
    using assms by (auto simp: classify_def)
  have mf: "env_model_files env (model_path env) = Some m"
    using m by (simp add: load_model_def split: option.splits)
  have r: "rows = map (decode_row (env_class_index env) 5) (chunks NUM_CLASSES (data y))"
    using rows by (simp add: decode_predictions_def split: if_splits)
  then have "data y \<noteq> []" using p by (auto simp: py_first_def)
  then have "preds = decode_row (env_class_index env) 5 (take NUM_CLASSES (data y))"
    using p r by (simp add: chunks_not_Nil NUM_CLASSES_def py_first_def)
  then have "map score preds = take 5 (rev (sort (take NUM_CLASSES (data y))))"
    by (simp add: decode_row_scores rev_py_tail)
  then show ?thesis using mf x y by blast
qed

end
