(* ===== verification/Urls.thy ===== *)
theory Urls
  imports Prelude
begin

text \<open>
  The URL configuration (urls.py lines 20--34): \<open>urlpatterns\<close> routes
  \<open>admin/\<close> to Django's admin site (an \<open>include\<close>, matched as a prefix)
  and the empty route to \<open>predict\<close> (an endpoint, matched exactly).
  Django's resolver strips the leading \<open>/\<close> of the request path and tries
  the patterns in order; the first match wins, no match is a 404.  What the
  admin site does with the rest of the path is not modelled: the model
  returns that rest.
\<close>

datatype view_target = Predict_view | Admin_site

text \<open>
  \<open>path(route, view)\<close> is an endpoint; \<open>path(route, admin.site.urls)\<close> hands
  the rest of the path to the admin site.
\<close>

datatype url_pattern =
    Route_endpoint string view_target
  | Route_include string view_target

definition urlpatterns :: "url_pattern list" where
  "urlpatterns = [Route_include ''admin/'' Admin_site, Route_endpoint '''' Predict_view]"

text \<open>
  \<open>RoutePattern.match\<close>: an endpoint route (regex \<open>^route\Z\<close>) matches the
  whole remaining path, an included route (regex \<open>^route\<close>) a prefix of it;
  the result is the view and the unmatched rest of the path.
\<close>

fun match_pattern :: "url_pattern \<Rightarrow> string \<Rightarrow> (view_target \<times> string) option" where
  "match_pattern (Route_endpoint r v) p = (if p = r then Some (v, []) else None)"
| "match_pattern (Route_include r v) p =
     (if take (length r) p = r then Some (v, drop (length r) p) else None)"

fun resolve :: "url_pattern list \<Rightarrow> string \<Rightarrow> (view_target \<times> string) option" where
  "resolve [] p = None"
| "resolve (u # us) p = (case match_pattern u p of Some m \<Rightarrow> Some m | None \<Rightarrow> resolve us p)"

text \<open>The root resolver: pattern \<open>^/\<close>, then the URL configuration.\<close>

definition resolve_root :: "string \<Rightarrow> (view_target \<times> string) option" where
  "resolve_root path = (if take 1 path = ''/'' then resolve urlpatterns (drop 1 path) else None)"

section \<open>Lemmas on resolution\<close>

lemma resolve_urlpatterns:
  "resolve urlpatterns p =
     (if take 6 p = ''admin/'' then Some (Admin_site, drop 6 p)
      else if p = [] then Some (Predict_view, []) else None)"
  by (simp add: urlpatterns_def eval_nat_numeral)

text \<open>C12. Only the root URL \<open>/\<close> reaches \<open>predict\<close>.\<close>

theorem resolve_root_predict:
  "resolve_root path = Some (Predict_view, rest) \<longleftrightarrow> path = ''/'' \<and> rest = []"
proof -
  have "take 1 path = ''/'' \<and> drop 1 path = [] \<longleftrightarrow> path = ''/''"
    by (cases path) auto
  then show ?thesis by (auto simp: resolve_root_def resolve_urlpatterns)
qed

theorem resolve_root_predict_witness:
  "resolve_root ''/'' = Some (Predict_view, []) \<and> resolve_root ''/predict'' \<noteq> Some (Predict_view, [])"
  using resolve_root_predict [of "''/''" "[]"] resolve_root_predict [of "''/predict''" "[]"] by simp

text \<open>
  C13. Every path under \<open>/admin/\<close> is handed to the admin site with the rest of
  the path, and every path that is neither \<open>/\<close> nor under \<open>/admin/\<close> is a 404.
\<close>

theorem resolve_root_cases:
  "resolve_root (''/admin/'' @ q) = Some (Admin_site, q) \<and>
   (path \<noteq> ''/'' \<and> take 7 path \<noteq> ''/admin/'' \<longrightarrow> resolve_root path = None)"
proof -
  have "resolve_root path = None" if "path \<noteq> ''/''" and "take 7 path \<noteq> ''/admin/''"
  proof (cases "take 1 path = ''/''")
    case True
    then obtain rest where p: "path = CHR ''/'' # rest" by (cases path) auto
    with that have "rest \<noteq> []" and "take 6 rest \<noteq> ''admin/''" by (auto simp: eval_nat_numeral)
    with p show ?thesis by (simp add: resolve_root_def resolve_urlpatterns)
  next
    case False
    then show ?thesis by (simp add: resolve_root_def)
  qed
  then show ?thesis by (simp add: resolve_root_def resolve_urlpatterns)
qed

theorem resolve_root_cases_witness:
  "resolve_root (''/admin/'' @ ''login/'') = Some (Admin_site, ''login/'') \<and>
   ''/about'' \<noteq> ''/'' \<and> take 7 ''/about'' \<noteq> ''/admin/'' \<and> resolve_root ''/about'' = None"
  using resolve_root_cases [of "''login/''" "''/about''"] by simp

text \<open>
  C14. The two routes never match the same path, so their order in
  \<open>urlpatterns\<close> does not matter.
\<close>

theorem urlpatterns_order_irrelevant: "resolve (rev urlpatterns) p = resolve urlpatterns p"
  by (auto simp: urlpatterns_def)

end
