(* ===== verification/Spec2Isabelle.thy ===== *)
theory Spec2Isabelle
  imports Views Urls
begin

text \<open>
  \<^bold>\<open>A verified model of the photo-identification web application\<close>
  (src/kadai_06/appenv_vgg16app/photoidentify: prediction/views.py,
  prediction/forms.py, photoidentify/urls.py).

  \<^bold>\<open>The program.\<close>  A Django site with one page.  The URL configuration
  (urls.py) sends \<open>/\<close> to the view \<open>predict\<close> and \<open>/admin/\<close> to Django's admin
  site.  \<open>predict\<close> (views.py) answers GET with an empty upload form
  (\<open>ImageUploadForm\<close>, forms.py: one required \<open>ImageField\<close>); on POST it binds
  the form to the submitted data, and if the form is valid it reads the
  uploaded image, resizes it to 224 x 224 (\<open>load_img\<close>), turns it into a
  \<open>(1, 224, 224, 3)\<close> array (\<open>img_to_array\<close>, \<open>reshape\<close>), normalises it
  (\<open>preprocess_input\<close>), loads VGG16 from \<open>BASE_DIR/prediction/models/vgg16.h5\<close>,
  runs it and decodes the five best ImageNet classes (\<open>decode_predictions\<close>);
  an invalid form is answered like a GET.  No state survives a request.

  \<^bold>\<open>The theories.\<close>
  \<^item> \<open>Prelude\<close>: bytes as \<open>8 word\<close> lists, the exceptions of the view (\<open>exc\<close>),
    Python's exception propagation as \<open>bindE\<close> on \<open>exc + 'a\<close>, descending order,
    the collection \<open>pipeline_simps\<close>.
  \<^item> \<open>Tensor\<close>: NumPy arrays (\<open>ndarray\<close>: shape and row-major buffer),
    \<open>reshape\<close> (views.py line 59) and Keras' caffe-mode \<open>preprocess_input\<close>
    (line 61), with the invariant \<open>wf_array\<close> (buffer length = product of the
    shape) and the chunking of the last axis.
  \<^item> \<open>Pillow\<close>: Pillow images (\<open>pil_image\<close>, the 8-bit modes 1, L, LA, P with
    its palette, RGB, RGBA and CMYK, the invariant \<open>wf_image\<close>), \<open>Image.open\<close>
    with its decompression-bomb check (\<open>image_open\<close>, \<open>MAX_IMAGE_PIXELS\<close>,
    used by the form and by \<open>load_img\<close>), \<open>convert_rgb\<close> after Pillow's
    Convert.c (\<open>palette_rgb\<close>, \<open>cmyk_channel\<close> with \<open>muldiv255\<close> and
    \<open>clip8\<close>) and the nearest-neighbour \<open>resize_nearest\<close>.
  \<^item> \<open>Imaging\<close>: Keras' \<open>load_img\<close> (line 55) and \<open>img_to_array\<close> (line 57).
  \<^item> \<open>Decode\<close>: \<open>decode_predictions\<close> (line 75): \<open>argsort\<close>, the slice
    \<open>[-top:]\<close> (\<open>py_tail\<close>), the reversed stable sort of CPython
    (\<open>sort_desc_key\<close>), the contract \<open>is_argsort\<close> of NumPy's unstable
    argsort, and the abstract specification \<open>is_top_k\<close>.
  \<^item> \<open>Forms\<close>: \<open>ImageUploadForm\<close> (forms.py lines 8--9) with Django's
    \<open>ImageField\<close> cleaning (its widget \<open>ClearableFileInput\<close>,
    \<open>image_to_python\<close>, the required check, the extension validator),
    \<open>is_valid\<close>, \<open>cleaned_data\<close>, \<open>MultiValueDict.get\<close>.
  \<^item> \<open>Views\<close>: \<open>predict\<close> (views.py lines 25--89) composed of
    \<open>prepare_image\<close> (lines 51--61) and \<open>classify\<close> (lines 51--75), with
    \<open>os.path.join\<close> and \<open>load_model\<close>.  Everything the view reads from outside is
    the record \<open>environment\<close>: Pillow's decoder and extensions,
    \<open>settings.BASE_DIR\<close>, the saved model files, the model's \<open>predict\<close> and the
    ImageNet class table.  These are the interfaces between the view and its
    libraries: the theorems state what they need of them as hypotheses.
  \<^item> \<open>Urls\<close>: \<open>urlpatterns\<close> (urls.py lines 27--34) and Django's
    resolver of a flat URL configuration (\<open>resolve\<close>, \<open>resolve_root\<close>).
  \<^item> This theory: Django's request handling (\<open>handle_request\<close>: routing, the
    view, exceptions and a \<open>None\<close> result turned into HTTP 500), a browsing
    session as the inductive \<open>page_reachable\<close>, an example environment and the
    witnesses of the claims.

  \<^bold>\<open>What is proved.\<close>  The handler's behaviour on every branch: GET (C3),
  invalid POST equal to GET (C2), valid POST with exactly five sorted
  predictions with confidences in [0, 1] (C1), an uncaught \<open>OSError\<close> for a
  missing model (C9), a server error for every other method (C4); the model
  only ever receives well-formed \<open>(1, 224, 224, 3)\<close> arrays with values in
  the caffe range [-123.68, 151.061] up to float32 rounding (C6); the session
  invariant (C5); \<open>decode_predictions\<close> refines the top-k specification and
  its final sort is a no-op (C7); \<open>preprocess_input\<close> equals its
  element-wise reading (C8); the validator's acceptance condition (C10); the
  model path (C11); routing (C12--C14); resizing only copies pixels (C15);
  the file-extension round trip (C16), and that \<open>load_img\<close>'s skipped
  resize equals resizing anyway (C17).  \<open>decode_predictions\<close> returns one
  sorted row of \<open>min top 1000\<close> predictions per input row (C18); for every
  order NumPy's unstable argsort may return, the confidences shown are the
  same (C19) and the selection is a top-k one that the final sort leaves in
  place (C20).  Pillow's CMYK conversion is the exact formula rounded to
  nearest without overflow or clamping (C21).  Given a decoder of
  well-formed images and a working model, a request to \<open>/\<close> ends in a server
  error only for a method other than GET and POST (C22).  The form's
  cleaning depends on the uploaded files only, never on the other POST
  fields (C23).  An upload declaring more than \<open>2 * MAX_IMAGE_PIXELS\<close>
  pixels is rejected by the form and answered with the empty form (C24);
  the file of a valid form always loads in \<open>load_img\<close> (C25).  The
  confidences of a decoded row add up to at most the row's mass, at most 1
  for a softmax output (C26).  The confidences shown are the first \<open>top\<close>
  of all scores sorted in descending order (C27), and carry at least their
  share of the row's mass (C28); a successful classification shows the five
  highest scores of the model's output row (C29).

  \<^bold>\<open>Modelling choices.\<close>  Float32 values are reals: rounding is not modelled,
  so the resize indices are computed exactly and float ties are not
  distinguished.  Where a bound depends on it, the statement leaves a margin
  for float32 rounding: C6's guard accepts [-123.69, 151.07], since the
  rounding error of a float32 value of magnitude below 256 is under
  \<open>10\<^sup>-\<^sup>4\<close>.  The model's \<open>argsort\<close> is a stable sort (ties broken by
  index); NumPy's quicksort is not stable, so \<open>is_argsort\<close> describes every
  order it may return, and C19/C20 hold for all of them.  All loops are
  structural recursion or \<open>map\<close> over finite lists except \<open>chunks\<close>, a
  \<open>function\<close> with the measure \<open>length\<close>; no fuel is needed anywhere.  A \<open>P\<close>
  image's palette is carried by its mode value; palette entries the file
  does not define are Pillow's initial grey ramp.
  Pillow's \<open>open\<close>/\<open>verify\<close> are one decoder, so a file the form accepts is
  one \<open>load_img\<close> can open.  \<open>lower()\<close> lowers ASCII letters only.

  \<^bold>\<open>Not modelled.\<close>  The template home.html (not in the repository), the
  JavaScript that fills the hidden field \<open>img_data\<close>, Django's settings,
  middleware and CSRF handling, the VGG16 network itself (an opaque
  function of the environment) and the numeric kernels of TensorFlow.  The
  admin site behind \<open>admin/\<close> (urls.py line 28) is Django's library code, and
  its URL patterns depend on the model registry that \<open>INSTALLED_APPS\<close> in
  settings.py fills, which is not in the repository: the model hands it the
  rest of the path.  urls.py uses no \<open>include()\<close> of another URL
  configuration, so Django's nested resolution is not modelled.  Pillow's byte-level format decoders (the environment's
  \<open>env_pil_open\<close>), and its 16/32-bit and float modes (I;16, I, F, as for
  16-bit PNGs): \<open>pil_mode\<close> has no constructor for them, so the model
  assumes the decoder never returns them.  Pillow's NEAREST resize computes
  the source coordinate by adding \<open>src / dst\<close> to a C double for each output
  pixel (\<open>ImagingScaleAffine\<close>); HOL-Library has no IEEE arithmetic, so
  \<open>nearest_src\<close> is that computation done exactly, which can differ only
  where rounding error moves the coordinate across an integer.  Django's
  multipart parser is library I/O whose result, \<open>request.FILES\<close>, is an
  input of the model.

  \<^bold>\<open>Plan for the next steps.\<close>  The parts of the three source files are all
  modelled; what remains are library details beyond them: the file-size
  and memory limits of Django's upload handlers, and \<open>keras.utils.load_img\<close>
  options the view does not pass.
\<close>

section \<open>Django request handling\<close>

text \<open>
  What a client gets for a request to the application: the URL configuration
  of urls.py chooses the view; Django turns an exception of the view into a
  500 response, and so a view that returns \<open>None\<close> (Django's check raises
  \<open>ValueError\<close>: the view "didn't return an HttpResponse object").
\<close>

datatype http_response =
    HTTP_200 response
  | HTTP_404
  | HTTP_500 exc
  | Admin_response string

definition no_response_error :: exc where
  "no_response_error =
     ValueError ''The view prediction.views.predict didn't return an HttpResponse object. It returned None instead.''"

definition handle_request :: "'m environment \<Rightarrow> string \<Rightarrow> request \<Rightarrow> http_response" where
  "handle_request env path request =
     (case resolve_root path of
        None \<Rightarrow> HTTP_404
      | Some (Admin_site, rest) \<Rightarrow> Admin_response rest
      | Some (Predict_view, _) \<Rightarrow>
          (case predict env request of
             Inl e \<Rightarrow> HTTP_500 e
           | Inr None \<Rightarrow> HTTP_500 no_response_error
           | Inr (Some r) \<Rightarrow> HTTP_200 r))"

section \<open>A browsing session\<close>

text \<open>
  The pages a user can see: the page of a first visit (GET /), then the page
  answering any further request to /.  Each request is handled afresh, with
  no state kept between requests.  A page is as the specification promises
  when it shows either the empty form alone, or a valid submitted form with
  five predictions, sorted, each confidence in [0, 1].
\<close>

definition page_ok :: "'m environment \<Rightarrow> response \<Rightarrow> bool" where
  "page_ok env r =
     (case r of Render t ctx \<Rightarrow>
        t = ''home.html'' \<and>
        (case ctx_prediction ctx of
           None \<Rightarrow> ctx = form_only ImageUploadForm
         | Some preds \<Rightarrow>
             length preds = 5 \<and> sorted_desc (map score preds) \<and>
             list_all (\<lambda>p. 0 \<le> score p \<and> score p \<le> 1) preds \<and>
             is_valid (env_pil_open env) (env_image_extensions env) (ctx_form ctx)))"

definition get_root :: request where
  "get_root = \<lparr>req_method = ''GET'', POST = [], FILES = []\<rparr>"

inductive page_reachable :: "'m environment \<Rightarrow> response \<Rightarrow> bool" for env :: "'m environment" where
  first_visit: "handle_request env ''/'' get_root = HTTP_200 r \<Longrightarrow> page_reachable env r"
| next_request: "page_reachable env r \<Longrightarrow> handle_request env ''/'' request = HTTP_200 r' \<Longrightarrow>
                 page_reachable env r'"

section \<open>An example environment\<close>

text \<open>
  A one-pixel RGB image behind the bytes \<open>[1]\<close>, JPEG as the only extension,
  a model file present everywhere and a model that answers every input with
  the uniform distribution over the 1000 classes.
\<close>

definition example_image :: pil_image where
  "example_image = \<lparr>im_mode = Mode_RGB, im_width = 1, im_height = 1, im_pixels = [[1, 2, 3]]\<rparr>"

definition example_scores :: ndarray where
  "example_scores = \<lparr>shape = [1, 1000], data = replicate 1000 (1 / 1000)\<rparr>"

definition example_env :: "unit environment" where
  "example_env =
     \<lparr>env_pil_open = (\<lambda>b. if b = [1] then Some example_image else None),
      env_image_extensions = [''jpg''],
      BASE_DIR = ''/srv/photoidentify'',
      env_model_files = (\<lambda>p. Some ()),
      env_model_predict = (\<lambda>m x. Inr example_scores),
      env_class_index = (\<lambda>i. (''n02085620'', ''Chihuahua''))\<rparr>"

definition example_upload :: uploaded_file where
  "example_upload = \<lparr>file_name = ''dog.jpg'', file_content = [1]\<rparr>"

definition example_post :: request where
  "example_post = \<lparr>req_method = ''POST'', POST = [(''img_data'', ''data:image/jpeg'')],
                   FILES = [(''image'', example_upload)]\<rparr>"

definition fake_upload :: uploaded_file where
  "fake_upload = \<lparr>file_name = ''fake.jpg'', file_content = [104, 105]\<rparr>"

definition fake_post :: request where
  "fake_post = \<lparr>req_method = ''POST'', POST = [], FILES = [(''image'', fake_upload)]\<rparr>"

text \<open>
  A file whose header declares a 20000 x 10000 image: \<open>Image.open\<close> reads
  only the header, so its pixels never matter.
\<close>

definition bomb_image :: pil_image where
  "bomb_image = \<lparr>im_mode = Mode_RGB, im_width = 20000, im_height = 10000, im_pixels = []\<rparr>"

section \<open>Properties that span the components\<close>

lemma handle_request_200_ok:
  assumes dec: "\<forall>b img. env_pil_open env b = Some img \<longrightarrow>
                  wf_image img \<and> 0 < im_width img \<and> 0 < im_height img"
    and mp: "\<forall>m x. env_model_files env (model_path env) = Some m \<longrightarrow>
               wf_array x \<and> shape x = [1, 224, 224, 3] \<longrightarrow>
               (\<exists>y. env_model_predict env m x = Inr y \<and> wf_array y \<and>
                    shape y = [1, NUM_CLASSES] \<and> (\<forall>v \<in> set (data y). 0 \<le> v \<and> v \<le> 1))"
    and h: "handle_request env path request = HTTP_200 r"
  shows "page_ok env r"
proof -
  have p: "predict env request = Inr (Some r)"
    using h by (auto simp: handle_request_def split: option.splits view_target.splits sum.splits)
  from predict_Some_cases [OF p] show ?thesis
  proof (elim disjE exE conjE)
    assume "r = Render ''home.html'' (form_only ImageUploadForm)"
    then show ?thesis by (simp add: page_ok_def form_only_def)
  next
    fix f preds
    assume valid: "is_valid (env_pil_open env) (env_image_extensions env)
                 (ImageUploadForm_bound (POST request) (FILES request))"
      and "cleaned_image (env_pil_open env) (env_image_extensions env)
             (ImageUploadForm_bound (POST request) (FILES request)) = Some f"
      and c: "classify env (file_content f) = Inr preds"
      and r: "r = Render ''home.html''
             \<lparr>ctx_form = ImageUploadForm_bound (POST request) (FILES request),
              ctx_prediction = Some preds,
              ctx_img_data = Some (mvd_get (POST request) ''img_data'')\<rparr>"
    obtain m img where m: "env_model_files env (model_path env) = Some m"
      and img: "image_open (env_pil_open env) (file_content f) = Inr img"
      using classify_Inr [OF c] by blast
    have "wf_image img \<and> 0 < im_width img \<and> 0 < im_height img" by (rule image_open_decoded [OF dec img])
    then obtain preds' where c': "classify env (file_content f) = Inr preds'"
      and props: "length preds' = 5 \<and> sorted_desc (map score preds') \<and>
                  (\<forall>q \<in> set preds'. 0 \<le> score q \<and> score q \<le> 1)"
      using classify_ok [OF img _ _ _ m] mp m by blast
    have "preds' = preds" using c c' by simp
    then show ?thesis using props valid r by (simp add: page_ok_def list_all_iff)
  qed
qed

text \<open>
  C5. Invariant of a browsing session: every page a user can reach is as the
  specification promises (the empty form alone, or a valid form with five
  sorted predictions whose confidences lie in [0, 1]), whenever Pillow decodes
  to well-formed images and the model maps every \<open>(1, 224, 224, 3)\<close> input to
  a \<open>(1, 1000)\<close> probability array.
\<close>

theorem page_reachable_ok:
  assumes "\<forall>b img. env_pil_open env b = Some img \<longrightarrow>
             wf_image img \<and> 0 < im_width img \<and> 0 < im_height img"
    and "\<forall>m x. env_model_files env (model_path env) = Some m \<longrightarrow>
           wf_array x \<and> shape x = [1, 224, 224, 3] \<longrightarrow>
           (\<exists>y. env_model_predict env m x = Inr y \<and> wf_array y \<and>
                shape y = [1, NUM_CLASSES] \<and> (\<forall>v \<in> set (data y). 0 \<le> v \<and> v \<le> 1))"
    and "page_reachable env r"
  shows "page_ok env r"
  using assms(3)
proof (induction rule: page_reachable.induct)
  case (first_visit r)
  then show ?case using handle_request_200_ok [OF assms(1,2)] by blast
next
  case (next_request r request r')
  then show ?case using handle_request_200_ok [OF assms(1,2)] by blast
qed

text \<open>
  C4. A request to \<open>/\<close> with any method other than GET and POST (a HEAD
  request, say) ends in a server error: the view returns \<open>None\<close>, which
  Django rejects.
\<close>

theorem handle_request_other_method:
  "req_method request \<noteq> ''GET'' \<Longrightarrow> req_method request \<noteq> ''POST'' \<Longrightarrow>
     handle_request env ''/'' request = HTTP_500 no_response_error"
  by (simp add: handle_request_def resolve_root_def resolve_urlpatterns predict_other_method)

theorem handle_request_other_method_witness:
  "handle_request example_env ''/'' (get_root\<lparr>req_method := ''HEAD''\<rparr>) = HTTP_500 no_response_error"
  using handle_request_other_method [of "get_root\<lparr>req_method := ''HEAD''\<rparr>" example_env]
  by (simp add: get_root_def)

text \<open>
  C22. Safety of the error path: with a decoder of well-formed images and a
  present, working model, the only server error a request to \<open>/\<close> can end
  in is Django's rejection of the view's \<open>None\<close>, for a method other than
  GET and POST.
\<close>

theorem handle_request_500_cause:
  assumes dec: "\<forall>b img. env_pil_open env b = Some img \<longrightarrow>
                  wf_image img \<and> 0 < im_width img \<and> 0 < im_height img"
    and mf: "env_model_files env (model_path env) = Some m"
    and mp: "\<forall>x. wf_array x \<and> shape x = [1, 224, 224, 3] \<longrightarrow>
               (\<exists>y. env_model_predict env m x = Inr y \<and> wf_array y \<and>
                    shape y = [1, NUM_CLASSES] \<and> (\<forall>v \<in> set (data y). 0 \<le> v \<and> v \<le> 1))"
    and h: "handle_request env ''/'' request = HTTP_500 e"
  shows "e = no_response_error \<and> req_method request \<noteq> ''GET'' \<and> req_method request \<noteq> ''POST''"
proof -
  have other: "\<not> (req_method request = ''GET'' \<or> req_method request = ''POST'')"
  proof
    assume "req_method request = ''GET'' \<or> req_method request = ''POST''"
    then obtain r where "predict env request = Inr (Some r)"
      using predict_answers [OF dec mf mp] by blast
    then have "handle_request env ''/'' request = HTTP_200 r"
      by (simp add: handle_request_def resolve_root_def resolve_urlpatterns)
    with h show False by simp
  qed
  then have "predict env request = Inr None" by (simp add: predict_other_method)
  then show ?thesis using h other by (simp add: handle_request_def resolve_root_def resolve_urlpatterns)
qed

section \<open>Witnesses on the example environment\<close>

lemma example_extensions:
  "file_extension ''dog.jpg'' = ''jpg''" "file_extension ''fake.jpg'' = ''jpg''"
  by code_simp+

lemmas example_upload_simps = is_valid_iff form_clean_upload image_field_clean_Inr_iff
  ImageUploadForm_bound_def mvd_get_def file_size_def example_extensions
  image_open_def image_pixels_def MAX_IMAGE_PIXELS_def example_env_def example_image_def

lemma example_valid:
  "is_valid (env_pil_open example_env) (env_image_extensions example_env)
     (ImageUploadForm_bound (POST example_post) (FILES example_post))"
  by (simp add: example_upload_simps example_post_def example_upload_def)

lemma example_fake_invalid:
  "\<not> is_valid (env_pil_open example_env) (env_image_extensions example_env)
     (ImageUploadForm_bound (POST fake_post) (FILES fake_post))"
  by (simp add: example_upload_simps fake_post_def fake_upload_def)

lemma example_decoder:
  "\<forall>b img. env_pil_open example_env b = Some img \<longrightarrow>
     wf_image img \<and> 0 < im_width img \<and> 0 < im_height img"
  by (simp add: example_env_def example_image_def wf_image_def)

lemma example_model:
  "\<forall>x. wf_array x \<and> shape x = [1, 224, 224, 3] \<longrightarrow>
     (\<exists>y. env_model_predict example_env () x = Inr y \<and> wf_array y \<and>
          shape y = [1, NUM_CLASSES] \<and> (\<forall>v \<in> set (data y). 0 \<le> v \<and> v \<le> 1))"
  by (simp add: example_env_def example_scores_def wf_array_def NUM_CLASSES_def)

lemma example_first_visit:
  "handle_request example_env ''/'' get_root =
     HTTP_200 (Render ''home.html'' (form_only ImageUploadForm))"
  by (simp add: handle_request_def resolve_root_def resolve_urlpatterns predict_def get_root_def)

theorem predict_valid_post_witness:
  "\<exists>preds. predict example_env example_post =
     Inr (Some (Render ''home.html''
       \<lparr>ctx_form = ImageUploadForm_bound (POST example_post) (FILES example_post),
        ctx_prediction = Some preds,
        ctx_img_data = Some (mvd_get (POST example_post) ''img_data'')\<rparr>)) \<and>
   length preds = 5 \<and> sorted_desc (map score preds) \<and>
   (\<forall>r \<in> set preds. 0 \<le> score r \<and> score r \<le> 1)"
proof -
  have post: "req_method example_post = ''POST''" by (simp add: example_post_def)
  have mf: "env_model_files example_env (model_path example_env) = Some ()"
    by (simp add: example_env_def)
  show ?thesis by (rule predict_valid_post [OF post example_valid example_decoder mf example_model])
qed

theorem predict_get_witness:
  "predict example_env get_root = Inr (Some (Render ''home.html'' (form_only ImageUploadForm))) \<and>
   \<not> is_bound ImageUploadForm \<and> ctx_prediction (form_only ImageUploadForm) = None"
  by (rule predict_get) (simp add: get_root_def)

theorem predict_invalid_post_witness:
  "predict example_env fake_post = predict example_env (fake_post\<lparr>req_method := ''GET''\<rparr>)"
proof -
  have post: "req_method fake_post = ''POST''" by (simp add: fake_post_def)
  show ?thesis by (rule predict_invalid_post [OF post example_fake_invalid])
qed

theorem predict_model_missing_witness:
  "predict (example_env\<lparr>env_model_files := (\<lambda>p. None)\<rparr>) example_post =
     Inl (OSError ''No file or directory found'')"
proof -
  let ?env = "example_env\<lparr>env_model_files := (\<lambda>p. None)\<rparr> :: unit environment"
  have post: "req_method example_post = ''POST''" by (simp add: example_post_def)
  have valid: "is_valid (env_pil_open ?env) (env_image_extensions ?env)
                 (ImageUploadForm_bound (POST example_post) (FILES example_post))"
    using example_valid by simp
  have dec: "\<forall>b img. env_pil_open ?env b = Some img \<longrightarrow>
               wf_image img \<and> 0 < im_width img \<and> 0 < im_height img"
    using example_decoder by simp
  have "env_model_files ?env (model_path ?env) = None" by simp
  then show ?thesis by (rule predict_model_missing [OF post valid dec])
qed

theorem model_path_eq_witness:
  "model_path example_env = ''/srv/photoidentify/prediction/models/vgg16.h5''"
proof -
  have "BASE_DIR example_env \<noteq> []" and "last (BASE_DIR example_env) \<noteq> CHR ''/''"
    by (simp_all add: example_env_def)
  then have "model_path example_env = BASE_DIR example_env @ ''/prediction/models/vgg16.h5''"
    by (rule model_path_eq)
  then show ?thesis by (simp add: example_env_def)
qed

theorem predict_model_input_witness:
  "predict (example_env\<lparr>env_model_predict := guard_model_input (env_model_predict example_env)\<rparr>)
     example_post = predict example_env example_post"
  by (rule predict_model_input [OF example_decoder])

theorem page_reachable_ok_witness:
  "page_ok example_env (Render ''home.html'' (form_only ImageUploadForm))"
proof -
  have model: "\<forall>m x. env_model_files example_env (model_path example_env) = Some m \<longrightarrow>
           wf_array x \<and> shape x = [1, 224, 224, 3] \<longrightarrow>
           (\<exists>y. env_model_predict example_env m x = Inr y \<and> wf_array y \<and>
                shape y = [1, NUM_CLASSES] \<and> (\<forall>v \<in> set (data y). 0 \<le> v \<and> v \<le> 1))"
    using example_model by simp
  show ?thesis
    by (rule page_reachable_ok [OF example_decoder model page_reachable.first_visit [OF example_first_visit]])
qed

theorem handle_request_500_cause_witness:
  "handle_request example_env ''/'' (get_root\<lparr>req_method := ''HEAD''\<rparr>) = HTTP_500 no_response_error \<and>
   req_method (get_root\<lparr>req_method := ''HEAD''\<rparr>) \<noteq> ''GET'' \<and>
   req_method (get_root\<lparr>req_method := ''HEAD''\<rparr>) \<noteq> ''POST''"
proof -
  have h: "handle_request example_env ''/'' (get_root\<lparr>req_method := ''HEAD''\<rparr>) = HTTP_500 no_response_error"
    by (simp add: handle_request_def resolve_root_def resolve_urlpatterns predict_def get_root_def)
  have mf: "env_model_files example_env (model_path example_env) = Some ()"
    by (simp add: example_env_def)
  show ?thesis using h handle_request_500_cause [OF example_decoder mf example_model h] by simp
qed

theorem predict_decompression_bomb_witness:
  "predict (example_env\<lparr>env_pil_open := (\<lambda>b. Some bomb_image)\<rparr>) example_post =
     Inr (Some (Render ''home.html'' (form_only ImageUploadForm)))"
proof -
  have post: "req_method example_post = ''POST''" by (simp add: example_post_def)
  have f: "mvd_get (FILES example_post) ''image'' = Some example_upload"
    by (simp add: example_post_def mvd_get_def)
  have img: "env_pil_open (example_env\<lparr>env_pil_open := (\<lambda>b. Some bomb_image)\<rparr>)
               (file_content example_upload) = Some bomb_image" by simp
  have big: "2 * MAX_IMAGE_PIXELS < im_width bomb_image * im_height bomb_image"
    by (simp add: bomb_image_def MAX_IMAGE_PIXELS_def)
  show ?thesis by (rule predict_decompression_bomb [OF post f img big])
qed

theorem valid_upload_loads_witness:
  "\<exists>im. load_img (env_pil_open example_env) (file_content example_upload) (224, 224) = Inr im \<and>
     wf_image im \<and> im_mode im = Mode_RGB \<and> im_width im = 224 \<and> im_height im = 224"
proof -
  have f: "cleaned_image (env_pil_open example_env) (env_image_extensions example_env)
             (ImageUploadForm_bound (POST example_post) (FILES example_post)) = Some example_upload"
    by (simp add: cleaned_image_def form_clean_upload image_field_clean_def image_to_python_def
        example_upload_simps example_post_def example_upload_def)
  show ?thesis by (rule valid_upload_loads [OF example_decoder example_valid f])
qed

theorem classify_top5_scores_witness:
  "\<exists>preds. classify example_env (file_content example_upload) = Inr preds \<and>
     (\<exists>m x y. env_model_files example_env (model_path example_env) = Some m \<and>
        prepare_image example_env (file_content example_upload) = Inr x \<and>
        env_model_predict example_env m x = Inr y \<and>
        map score preds = take 5 (rev (sort (take NUM_CLASSES (data y)))))"
proof -
  have img: "image_open (env_pil_open example_env) (file_content example_upload) = Inr example_image"
    by (simp add: example_upload_simps example_upload_def)
  have ok: "wf_image example_image \<and> 0 < im_width example_image \<and> 0 < im_height example_image"
    by (rule image_open_decoded [OF example_decoder img])
  then have wf: "wf_image example_image" and w: "0 < im_width example_image"
    and h: "0 < im_height example_image" by simp_all
  have mf: "env_model_files example_env (model_path example_env) = Some ()"
    by (simp add: example_env_def)
  obtain preds where c: "classify example_env (file_content example_upload) = Inr preds"
    using classify_ok [OF img wf w h mf example_model] by blast
  show ?thesis using c classify_top5_scores [OF c] by blast
qed

end
